theory Spec2Isabelle
  imports Complex_Main
begin

section \<open>JavaScript numbers and the helpers of \<^verbatim>\<open>Math\<close>\<close>

text \<open>
  A JavaScript \<^verbatim>\<open>Number\<close> is modelled as an exact \<^typ>\<open>real\<close>: the fare rates,
  distances and amounts of the program are computed without rounding error, and the
  rounding the program itself asks for (\<^verbatim>\<open>Math.round\<close>, \<^verbatim>\<open>Math.floor\<close>,
  \<^verbatim>\<open>Math.ceil\<close>) is written out. \<^verbatim>\<open>Math.round\<close> rounds to the nearest integer and
  a tie towards plus infinity.
\<close>

definition Math_round :: "real \<Rightarrow> real" where
  "Math_round x = of_int \<lfloor>x + 1 / 2\<rfloor>"

definition Math_floor :: "real \<Rightarrow> int" where
  "Math_floor x = \<lfloor>x\<rfloor>"

definition Math_ceil :: "real \<Rightarrow> real" where
  "Math_ceil x = of_int \<lceil>x\<rceil>"

definition Math_max :: "real \<Rightarrow> real \<Rightarrow> real" where
  "Math_max a b = max a b"

text \<open>\<^verbatim>\<open>Number.prototype.toString\<close> on an integer value: its decimal digits.\<close>

definition digit_char :: "nat \<Rightarrow> char" where
  "digit_char d = ''0123456789'' ! d"

fun toString_nat :: "nat \<Rightarrow> string" where
  "toString_nat n =
     (if n < 10 then [digit_char n]
      else toString_nat (n div 10) @ [digit_char (n mod 10)])"

declare toString_nat.simps [simp del]

definition toString_int :: "int \<Rightarrow> string" where
  "toString_int i =
     (if i < 0 then CHR ''-'' # toString_nat (nat (- i)) else toString_nat (nat i))"

section \<open>Documents (\<^verbatim>\<open>models/Ride.js\<close>, \<^verbatim>\<open>models/Driver.js\<close>)\<close>

text \<open>
  The records carry the schema paths that the modelled operations read or write. An
  \<^verbatim>\<open>ObjectId\<close> is a natural number, a \<^verbatim>\<open>Date\<close> is a natural number of
  milliseconds, a GeoJSON coordinate pair is \<open>(longitude, latitude)\<close>, a schema path
  without default is an option. Status and vehicle type are strings, as in the schema and
  as the object literals of the routes key them. \<^verbatim>\<open>rideId\<close> is the required string
  of the ride schema. \<^verbatim>\<open>castErrors\<close> lists the paths of a document in memory to which a
  value was assigned that the type of the path cannot hold; a stored document has none.
\<close>

type_synonym oid = nat
type_synonym date = nat
type_synonym coords = "real \<times> real"

record fare_breakdown =
  baseFare :: real
  distanceFare :: real
  timeFare :: real
  surgeFare :: real
  surgeMultiplier :: real
  platformFee :: real
  taxes :: real
  tip :: real
  discount :: real
  couponDiscount :: real
  totalFare :: real
  driverEarning :: "real option"
  platformCommission :: "real option"

record surge_info =
  isActive :: bool
  multiplier :: real

record location_sample =
  sample_coordinates :: coords
  sample_heading :: "real option"
  sample_speed :: "real option"
  sample_timestamp :: date

record ride_doc =
  ride_id :: oid
  rideId :: "string option"
  passenger :: oid
  driver :: "oid option"
  vehicleType :: string
  pickup :: coords
  destination :: coords
  distance :: real
  estimatedDuration :: real
  fare :: fare_breakdown
  status :: string
  paymentMethod :: string
  otp :: string
  assignedAt :: "date option"
  pickedUpAt :: "date option"
  droppedAt :: "date option"
  completedAt :: "date option"
  cancelledAt :: "date option"
  cancellationReason :: "string option"
  cancelledBy :: "string option"
  castErrors :: "string list"
  surge :: surge_info
  driverLocation :: "location_sample list"

record driver_earnings =
  today :: real
  thisWeek :: real
  thisMonth :: real
  total :: real

record driver_stats =
  totalRides :: int
  totalDistance :: real
  cancelledRides :: int

record driver_doc =
  driver_id :: oid
  userId :: oid
  backgroundCheckStatus :: string
  isAvailable :: bool
  isOnline :: bool
  currentLocation :: "coords option"
  vehicle_type :: string
  earnings :: driver_earnings
  stats :: driver_stats
  approvalStatus :: string

text \<open>
  \<^verbatim>\<open>models/User.js\<close> is not among the sources; the routes read and write one path of a
  user document, \<^verbatim>\<open>totalRides\<close>.
\<close>

record user_doc =
  user_id :: oid
  user_totalRides :: int

text \<open>The three collections; a document is found by its \<^verbatim>\<open>_id\<close>.\<close>

record db =
  rides :: "ride_doc list"
  drivers :: "driver_doc list"
  users :: "user_doc list"

definition Ride_findById :: "oid \<Rightarrow> db \<Rightarrow> ride_doc option" where
  "Ride_findById i d = find (\<lambda>r. ride_id r = i) (rides d)"

definition Ride_save :: "ride_doc \<Rightarrow> db \<Rightarrow> db" where
  "Ride_save r d =
     (case Ride_findById (ride_id r) d of
        Some _ \<Rightarrow> d\<lparr>rides := map (\<lambda>x. if ride_id x = ride_id r then r else x) (rides d)\<rparr>
      | None \<Rightarrow> d\<lparr>rides := rides d @ [r]\<rparr>)"

definition Driver_findById :: "oid \<Rightarrow> db \<Rightarrow> driver_doc option" where
  "Driver_findById i d = find (\<lambda>x. driver_id x = i) (drivers d)"

definition Driver_findOne_userId :: "oid \<Rightarrow> db \<Rightarrow> driver_doc option" where
  "Driver_findOne_userId u d = find (\<lambda>x. userId x = u) (drivers d)"

definition Driver_save :: "driver_doc \<Rightarrow> db \<Rightarrow> db" where
  "Driver_save v d =
     (case Driver_findById (driver_id v) d of
        Some _ \<Rightarrow> d\<lparr>drivers := map (\<lambda>x. if driver_id x = driver_id v then v else x) (drivers d)\<rparr>
      | None \<Rightarrow> d\<lparr>drivers := drivers d @ [v]\<rparr>)"

definition User_findById :: "oid \<Rightarrow> db \<Rightarrow> user_doc option" where
  "User_findById i d = find (\<lambda>x. user_id x = i) (users d)"

definition User_save :: "user_doc \<Rightarrow> db \<Rightarrow> db" where
  "User_save u d =
     (case User_findById (user_id u) d of
        Some _ \<Rightarrow> d\<lparr>users := map (\<lambda>x. if user_id x = user_id u then u else x) (users d)\<rparr>
      | None \<Rightarrow> d\<lparr>users := users d @ [u]\<rparr>)"

text \<open>
  What a handler receives from outside the program: the distance functions of the
  \<^verbatim>\<open>geolib\<close> package (on latitude and longitude, in metres) and of the database's
  \<^verbatim>\<open>$near\<close> operator (on coordinate pairs, in metres), the clock, the value of
  \<^verbatim>\<open>Math.random()\<close>, the identifier given to a new document, and the string that
  the pre-save hook of the ride schema composes from the clock and \<^verbatim>\<open>Math.random()\<close>.
\<close>

record env =
  getDistance :: "real \<times> real \<Rightarrow> real \<times> real \<Rightarrow> real"
  near_metres :: "coords \<Rightarrow> coords \<Rightarrow> real"
  now :: date
  random :: real
  fresh_id :: oid
  generated_rideId :: string

text \<open>An HTTP response: the status code and the \<^verbatim>\<open>message\<close> or \<^verbatim>\<open>error\<close> text.\<close>

datatype response = Response nat string

record fare_config =
  baseRate :: real
  perKmRate :: real
  perMinuteRate :: real
  minimumFare :: real

section \<open>Fare calculator (\<^verbatim>\<open>getFareConfig\<close>, \<^verbatim>\<open>calculateFare\<close>, \<^verbatim>\<open>generateOTP\<close>)\<close>

definition configs :: "(string \<times> fare_config) list" where
  "configs =
     [(''bike'', \<lparr>baseRate = 20, perKmRate = 8, perMinuteRate = 1, minimumFare = 25\<rparr>),
      (''auto'', \<lparr>baseRate = 30, perKmRate = 12, perMinuteRate = 1.5, minimumFare = 40\<rparr>),
      (''car'', \<lparr>baseRate = 50, perKmRate = 15, perMinuteRate = 2, minimumFare = 60\<rparr>),
      (''suv'', \<lparr>baseRate = 70, perKmRate = 20, perMinuteRate = 2.5, minimumFare = 80\<rparr>)]"

definition configs_car :: fare_config where
  "configs_car = \<lparr>baseRate = 50, perKmRate = 15, perMinuteRate = 2, minimumFare = 60\<rparr>"

text \<open>\<^verbatim>\<open>configs[vehicleType] || configs.car\<close>\<close>

definition getFareConfig :: "string \<Rightarrow> fare_config" where
  "getFareConfig vt = (case map_of configs vt of Some c \<Rightarrow> c | None \<Rightarrow> configs_car)"

text \<open>
  \<^verbatim>\<open>calculateFare\<close> updates \<^verbatim>\<open>this.fare\<close> in place and returns
  \<^verbatim>\<open>this.fare.totalFare\<close>; the model returns the updated ride, statement by
  statement.
\<close>

definition calculateFare :: "ride_doc \<Rightarrow> fare_config \<Rightarrow> ride_doc" where
  "calculateFare r cfg =
     (let f = (fare r)\<lparr>baseFare := baseRate cfg\<rparr>;
          f = f\<lparr>distanceFare := distance r * perKmRate cfg\<rparr>;
          f = f\<lparr>timeFare := estimatedDuration r * perMinuteRate cfg\<rparr>;
          subtotal = baseFare f + distanceFare f + timeFare f;
          (f, subtotal) =
            (if isActive (surge r)
             then (let f = f\<lparr>surgeFare := subtotal * (multiplier (surge r) - 1)\<rparr>
                   in (f, subtotal + surgeFare f))
             else (f, subtotal));
          f = f\<lparr>platformFee := Math_round (subtotal * 0.05)\<rparr>;
          f = f\<lparr>taxes := Math_round (subtotal * 0.18)\<rparr>;
          total = subtotal + platformFee f + taxes f;
          total = total - (discount f + couponDiscount f);
          total = Math_max total (minimumFare cfg);
          f = f\<lparr>totalFare := Math_round total\<rparr>;
          earning = Math_round (totalFare f * 0.8);
          f = f\<lparr>driverEarning := Some earning\<rparr>;
          f = f\<lparr>platformCommission := Some (totalFare f - earning)\<rparr>
      in r\<lparr>fare := f\<rparr>)"

text \<open>
  The value of the local variable \<^verbatim>\<open>subtotal\<close> of \<^verbatim>\<open>calculateFare\<close> at its two
  moments, before and after the surge branch.
\<close>

definition subtotal_before_surge :: "ride_doc \<Rightarrow> fare_config \<Rightarrow> real" where
  "subtotal_before_surge r cfg =
     baseRate cfg + distance r * perKmRate cfg + estimatedDuration r * perMinuteRate cfg"

definition subtotal_after_surge :: "ride_doc \<Rightarrow> fare_config \<Rightarrow> real" where
  "subtotal_after_surge r cfg =
     (if isActive (surge r)
      then subtotal_before_surge r cfg
             + subtotal_before_surge r cfg * (multiplier (surge r) - 1)
      else subtotal_before_surge r cfg)"

text \<open>
  \<^verbatim>\<open>Math.floor(1000 + Math.random() * 9000).toString()\<close>; the value of
  \<^verbatim>\<open>Math.random()\<close> is the argument.
\<close>

definition otp_number :: "real \<Rightarrow> int" where
  "otp_number rnd = Math_floor (1000 + rnd * 9000)"

definition generateOTP :: "real \<Rightarrow> string" where
  "generateOTP rnd = toString_int (otp_number rnd)"

section \<open>Ride state machine (\<^verbatim>\<open>updateStatus\<close>, \<^verbatim>\<open>addDriverLocation\<close>, \<^verbatim>\<open>PUT /:rideId/status\<close>)\<close>

text \<open>\<^verbatim>\<open>updateStatus\<close> sets the status, stamps the date of the case it matches and saves.\<close>

definition updateStatus :: "date \<Rightarrow> string \<Rightarrow> ride_doc \<Rightarrow> db \<Rightarrow> ride_doc \<times> db" where
  "updateStatus t newStatus r d =
     (let r1 = r\<lparr>status := newStatus\<rparr>;
          r2 = (if newStatus = ''driver_assigned'' then r1\<lparr>assignedAt := Some t\<rparr>
                else if newStatus = ''pickup_confirmed'' then r1\<lparr>pickedUpAt := Some t\<rparr>
                else if newStatus = ''completed''
                  then r1\<lparr>completedAt := Some t, droppedAt := Some t\<rparr>
                else if newStatus = ''cancelled'' then r1\<lparr>cancelledAt := Some t\<rparr>
                else r1)
      in (r2, Ride_save r2 d))"

text \<open>\<^verbatim>\<open>slice(-50)\<close> keeps the last fifty samples.\<close>

definition addDriverLocation ::
    "date \<Rightarrow> coords \<Rightarrow> real option \<Rightarrow> real option \<Rightarrow> ride_doc \<Rightarrow> db \<Rightarrow> ride_doc \<times> db" where
  "addDriverLocation t c h sp r d =
     (let pushed = driverLocation r @
            [\<lparr>sample_coordinates = c, sample_heading = h, sample_speed = sp,
              sample_timestamp = t\<rparr>];
          kept = (if length pushed > 50 then drop (length pushed - 50) pushed else pushed);
          r1 = r\<lparr>driverLocation := kept\<rparr>
      in (r1, Ride_save r1 d))"

definition validTransitions :: "(string \<times> string list) list" where
  "validTransitions =
     [(''searching'', [''cancelled'']),
      (''driver_assigned'', [''driver_arrived'', ''cancelled'']),
      (''driver_arrived'', [''pickup_confirmed'', ''cancelled'']),
      (''pickup_confirmed'', [''in_progress'']),
      (''in_progress'', [''completed'']),
      (''completed'', []),
      (''cancelled'', [])]"

record location_update =
  loc_coordinates :: coords
  loc_heading :: "real option"
  loc_speed :: "real option"

record status_request =
  st_rideId :: oid
  st_user :: oid
  st_status :: string
  st_location :: "location_update option"

text \<open>The \<^verbatim>\<open>completed\<close> branch at the end of the status route.\<close>

definition complete_driver :: "ride_doc \<Rightarrow> db \<Rightarrow> db" where
  "complete_driver r d =
     (case driver r of
        None \<Rightarrow> d
      | Some i \<Rightarrow>
          (case Driver_findById i d of
             None \<Rightarrow> d
           | Some v \<Rightarrow>
               Driver_save
                 (v\<lparr>isAvailable := True,
                    stats := (stats v)\<lparr>totalRides := totalRides (stats v) + 1,
                                       totalDistance := totalDistance (stats v) + distance r\<rparr>\<rparr>)
                 d))"

definition complete_passenger :: "ride_doc \<Rightarrow> db \<Rightarrow> db" where
  "complete_passenger r d =
     (case User_findById (passenger r) d of
        None \<Rightarrow> d
      | Some p \<Rightarrow> User_save (p\<lparr>user_totalRides := user_totalRides p + 1\<rparr>) d)"

text \<open>
  The status route. Reading \<^verbatim>\<open>validTransitions[ride.status]\<close> at a status that is
  not a key of the table gives \<^verbatim>\<open>undefined\<close>, the call of \<^verbatim>\<open>includes\<close> on it
  throws, and the \<^verbatim>\<open>catch\<close> block answers 500. The server never stores a socket
  server under the application setting \<^verbatim>\<open>io\<close>, so \<^verbatim>\<open>req.app.get('io')\<close> is
  \<^verbatim>\<open>undefined\<close> and the blocks guarded by \<^verbatim>\<open>if (io)\<close> do not run.
\<close>

definition status_route :: "env \<Rightarrow> status_request \<Rightarrow> db \<Rightarrow> db \<times> response" where
  "status_route e rq d =
     (case Ride_findById (st_rideId rq) d of
        None \<Rightarrow> (d, Response 404 ''Ride not found'')
      | Some ride \<Rightarrow>
          (let isPassenger = (passenger ride = st_user rq);
               isDriver = (driver ride = Some (st_user rq))
           in if \<not> isPassenger \<and> \<not> isDriver
              then (d, Response 403 ''Not authorized to update this ride'')
              else
                (case map_of validTransitions (status ride) of
                   None \<Rightarrow> (d, Response 500 ''Failed to update ride status'')
                 | Some targets \<Rightarrow>
                     if st_status rq \<in> set targets
                     then
                       (let (ride1, d1) = updateStatus (now e) (st_status rq) ride d;
                            (ride2, d2) =
                              (case st_location rq of
                                 None \<Rightarrow> (ride1, d1)
                               | Some l \<Rightarrow>
                                   if isDriver
                                   then addDriverLocation (now e) (loc_coordinates l)
                                          (loc_heading l) (loc_speed l) ride1 d1
                                   else (ride1, d1));
                            d3 = (if st_status rq = ''completed''
                                  then complete_passenger ride2 (complete_driver ride2 d2)
                                  else d2)
                        in (d3, Response 200 ''Ride status updated successfully''))
                     else (d, Response 400 ''Invalid status transition''))))"

text \<open>\<^verbatim>\<open>updateEarnings\<close> of the driver model; the payment routes call it.\<close>

definition updateEarnings :: "real \<Rightarrow> driver_doc \<Rightarrow> db \<Rightarrow> driver_doc \<times> db" where
  "updateEarnings amount v d =
     (let v1 = v\<lparr>earnings := (earnings v)\<lparr>today := today (earnings v) + amount,
                                             thisWeek := thisWeek (earnings v) + amount,
                                             thisMonth := thisMonth (earnings v) + amount,
                                             total := total (earnings v) + amount\<rparr>\<rparr>
      in (v1, Driver_save v1 d))"

definition isAvailableForRides :: "driver_doc \<Rightarrow> bool" where
  "isAvailableForRides v \<longleftrightarrow>
     isAvailable v \<and> isOnline v \<and> approvalStatus v = ''approved''
       \<and> backgroundCheckStatus v = ''approved''"

section \<open>Dispatch: \<^verbatim>\<open>POST /request\<close>\<close>

definition calculateDistance :: "env \<Rightarrow> coords \<Rightarrow> coords \<Rightarrow> real" where
  "calculateDistance e p q = getDistance e (snd p, fst p) (snd q, fst q) / 1000"

definition calculateEstimatedDuration :: "real \<Rightarrow> real" where
  "calculateEstimatedDuration km = Math_ceil ((km / 25) * 60)"

record ride_request =
  rq_user :: oid
  rq_pickup :: coords
  rq_destination :: coords
  rq_vehicleType :: string
  rq_paymentMethod :: string
  rq_promoCode :: "string option"

text \<open>
  \<^verbatim>\<open>new Ride({...})\<close> as the request route calls it: the paths it passes, and the
  schema defaults for the others. The route passes no \<^verbatim>\<open>rideId\<close>.
\<close>

definition new_Ride ::
    "oid \<Rightarrow> oid \<Rightarrow> coords \<Rightarrow> coords \<Rightarrow> string \<Rightarrow> string \<Rightarrow> real \<Rightarrow> real \<Rightarrow> string \<Rightarrow> ride_doc" where
  "new_Ride i u p q vt pm km dur code =
     \<lparr>ride_id = i, rideId = None, passenger = u, driver = None, vehicleType = vt, pickup = p,
      destination = q, distance = km, estimatedDuration = dur,
      fare = \<lparr>baseFare = 0, distanceFare = 0, timeFare = 0, surgeFare = 0,
               surgeMultiplier = 1, platformFee = 0, taxes = 0, tip = 0, discount = 0,
               couponDiscount = 0, totalFare = 0, driverEarning = None,
               platformCommission = None\<rparr>,
      status = ''requested'', paymentMethod = pm, otp = code,
      assignedAt = None, pickedUpAt = None, droppedAt = None, completedAt = None,
      cancelledAt = None, cancellationReason = None, cancelledBy = None,
      castErrors = [], surge = \<lparr>isActive = False, multiplier = 1\<rparr>,
      driverLocation = []\<rparr>"

text \<open>
  The \<^verbatim>\<open>Driver.find\<close> query of the route: the drivers of the vehicle type that are
  available, online and approved, with a location within \<open>maxDistance\<close> metres of the
  point, nearest first.
\<close>

definition Driver_find_near :: "env \<Rightarrow> string \<Rightarrow> coords \<Rightarrow> real \<Rightarrow> db \<Rightarrow> driver_doc list" where
  "Driver_find_near e vt p maxDistance d =
     map snd (sort_key fst
       (List.map_filter
          (\<lambda>v. case currentLocation v of
                  None \<Rightarrow> None
                | Some l \<Rightarrow>
                    if vehicle_type v = vt \<and> isAvailable v \<and> isOnline v
                       \<and> approvalStatus v = ''approved''
                       \<and> backgroundCheckStatus v = ''approved''
                       \<and> near_metres e p l \<le> maxDistance
                    then Some (near_metres e p l, v) else None)
          (drivers d)))"

text \<open>
  \<^verbatim>\<open>save()\<close> of a ride document, as the request route meets it. The document is
  validated first: \<^verbatim>\<open>rideId\<close> is required, and a path with a cast error is invalid.
  Only a valid document reaches the pre-save hook of the schema, which composes a
  \<^verbatim>\<open>rideId\<close> when there is none, and is then written. A rejected \<^verbatim>\<open>save()\<close>
  writes nothing. The other routes save documents they have read from the collection,
  which hold the \<^verbatim>\<open>rideId\<close> they were stored with; their \<^verbatim>\<open>save()\<close> is the
  write \<^const>\<open>Ride_save\<close>.
\<close>

definition Ride_validate :: "ride_doc \<Rightarrow> bool" where
  "Ride_validate r =
     (case rideId r of None \<Rightarrow> False | Some s \<Rightarrow> s \<noteq> [] \<and> castErrors r = [])"

definition pre_save_hook :: "env \<Rightarrow> ride_doc \<Rightarrow> ride_doc" where
  "pre_save_hook e r =
     (case rideId r of
        None \<Rightarrow> r\<lparr>rideId := Some (generated_rideId e)\<rparr>
      | Some s \<Rightarrow> if s = [] then r\<lparr>rideId := Some (generated_rideId e)\<rparr> else r)"

definition save_validated :: "env \<Rightarrow> ride_doc \<Rightarrow> db \<Rightarrow> (ride_doc \<times> db) option" where
  "save_validated e r d =
     (if Ride_validate r
      then (let r1 = pre_save_hook e r in Some (r1, Ride_save r1 d))
      else None)"

text \<open>
  The request route from its driver search to its answer: what it does with the ride
  document it holds once the first \<^verbatim>\<open>save()\<close> has returned.
\<close>

definition search_and_answer :: "env \<Rightarrow> ride_request \<Rightarrow> ride_doc \<Rightarrow> db \<Rightarrow> db \<times> response" where
  "search_and_answer e rq ride d1 =
     (let maxDistance = 5000;
          availableDrivers =
            Driver_find_near e (rq_vehicleType rq) (rq_pickup rq) maxDistance d1
      in if length availableDrivers = 0
         then
           (let ride = ride\<lparr>status := ''cancelled'',
                             cancellationReason := Some ''No drivers available''\<rparr>
            in case save_validated e ride d1 of
                 None \<Rightarrow> (d1, Response 500 ''Failed to request ride'')
               | Some (ride, d2) \<Rightarrow> (d2, Response 400 ''No drivers available in your area''))
         else
           (let ride = ride\<lparr>status := ''searching''\<rparr>
            in case save_validated e ride d1 of
                 None \<Rightarrow> (d1, Response 500 ''Failed to request ride'')
               | Some (ride, d2) \<Rightarrow> (d2, Response 201 ''Ride requested successfully'')))"

text \<open>
  The request route, on a body that passed \<^verbatim>\<open>rideRequestSchema\<close> (the record type
  holds the validated paths the route uses). In every route the authentication middleware
  has passed, and the request carries the identifier of its user. The path
  \<^verbatim>\<open>promo\<close> of the ride schema is a string (its declaration has a \<^verbatim>\<open>type\<close> key), so
  the object that the route assigns to it for a promo code leaves a cast error. When
  \<^verbatim>\<open>save()\<close> rejects, the \<^verbatim>\<open>catch\<close> block answers 500.
\<close>

definition request_route :: "env \<Rightarrow> ride_request \<Rightarrow> db \<Rightarrow> db \<times> response" where
  "request_route e rq d =
     (let km = calculateDistance e (rq_pickup rq) (rq_destination rq);
          estimated = calculateEstimatedDuration km
      in if km < 0.5 then (d, Response 400 ''Minimum distance is 0.5 km'')
         else
           (let code = generateOTP (random e);
                ride = new_Ride (fresh_id e) (rq_user rq) (rq_pickup rq) (rq_destination rq)
                         (rq_vehicleType rq) (rq_paymentMethod rq) km estimated code;
                fareConfig = getFareConfig (rq_vehicleType rq);
                ride = calculateFare ride fareConfig;
                ride = (case rq_promoCode rq of
                          None \<Rightarrow> ride
                        | Some c \<Rightarrow> ride\<lparr>castErrors := ''promo'' # castErrors ride\<rparr>)
            in case save_validated e ride d of
                 None \<Rightarrow> (d, Response 500 ''Failed to request ride'')
               | Some (ride, d1) \<Rightarrow> search_and_answer e rq ride d1))"

section \<open>Dispatch: \<^verbatim>\<open>POST /:rideId/accept\<close>\<close>

record accept_request =
  ac_rideId :: oid
  ac_user :: oid
  ac_currentLocation :: "coords option"

text \<open>
  The accept route as the program text reads, when nothing else runs between its
  database calls. Without \<^verbatim>\<open>currentLocation\<close> in the body, indexing it throws and
  the \<^verbatim>\<open>catch\<close> block answers 500.
\<close>

definition accept_route :: "env \<Rightarrow> accept_request \<Rightarrow> db \<Rightarrow> db \<times> response" where
  "accept_route e rq d =
     (case Ride_findById (ac_rideId rq) d of
        None \<Rightarrow> (d, Response 404 ''Ride not found'')
      | Some ride \<Rightarrow>
          if status ride \<noteq> ''searching''
          then (d, Response 400 ''Ride is not available for acceptance'')
          else
            (case Driver_findOne_userId (ac_user rq) d of
               None \<Rightarrow> (d, Response 400 ''Driver not available'')
             | Some v \<Rightarrow>
                 if \<not> isAvailableForRides v then (d, Response 400 ''Driver not available'')
                 else
                   (case ac_currentLocation rq of
                      None \<Rightarrow> (d, Response 500 ''Failed to accept ride'')
                    | Some l \<Rightarrow>
                        if getDistance e (snd l, fst l) (snd (pickup ride), fst (pickup ride))
                             > 5000
                        then (d, Response 400 ''Too far from pickup location'')
                        else
                          (let ride1 = ride\<lparr>driver := Some (driver_id v),
                                              status := ''driver_assigned'',
                                              assignedAt := Some (now e)\<rparr>;
                               d1 = Ride_save ride1 d;
                               v1 = v\<lparr>isAvailable := False, currentLocation := Some l\<rparr>;
                               d2 = Driver_save v1 d1
                           in (d2, Response 200 ''Ride accepted successfully'')))))"

text \<open>
  The same route as the event loop runs it. The handler is an \<^verbatim>\<open>async\<close> function:
  at each \<^verbatim>\<open>await\<close> of a database call it is suspended and other handlers may run.
  A task is the point a handler has reached, with the documents it holds in its local
  variables; a step performs the database call the task waits for and runs the handler
  to its next \<^verbatim>\<open>await\<close> or to its response. \<^verbatim>\<open>save\<close> writes the document the
  handler holds.
\<close>

datatype accept_task =
    Await_findRide
  | Await_findDriver ride_doc
  | Await_saveRide ride_doc driver_doc coords
  | Await_saveDriver ride_doc driver_doc
  | Responded response

fun accept_step :: "env \<Rightarrow> accept_request \<Rightarrow> db \<times> accept_task \<Rightarrow> db \<times> accept_task" where
  "accept_step e rq (d, Await_findRide) =
     (case Ride_findById (ac_rideId rq) d of
        None \<Rightarrow> (d, Responded (Response 404 ''Ride not found''))
      | Some ride \<Rightarrow>
          if status ride \<noteq> ''searching''
          then (d, Responded (Response 400 ''Ride is not available for acceptance''))
          else (d, Await_findDriver ride))"
| "accept_step e rq (d, Await_findDriver ride) =
     (case Driver_findOne_userId (ac_user rq) d of
        None \<Rightarrow> (d, Responded (Response 400 ''Driver not available''))
      | Some v \<Rightarrow>
          if \<not> isAvailableForRides v
          then (d, Responded (Response 400 ''Driver not available''))
          else
            (case ac_currentLocation rq of
               None \<Rightarrow> (d, Responded (Response 500 ''Failed to accept ride''))
             | Some l \<Rightarrow>
                 if getDistance e (snd l, fst l) (snd (pickup ride), fst (pickup ride)) > 5000
                 then (d, Responded (Response 400 ''Too far from pickup location''))
                 else
                   (d, Await_saveRide
                         (ride\<lparr>driver := Some (driver_id v), status := ''driver_assigned'',
                               assignedAt := Some (now e)\<rparr>) v l)))"
| "accept_step e rq (d, Await_saveRide ride v l) =
     (Ride_save ride d,
      Await_saveDriver ride (v\<lparr>isAvailable := False, currentLocation := Some l\<rparr>))"
| "accept_step e rq (d, Await_saveDriver ride v) =
     (Driver_save v d, Responded (Response 200 ''Ride accepted successfully''))"
| "accept_step e rq (d, Responded res) = (d, Responded res)"

text \<open>
  Several accept handlers in flight: the schedule names, step by step, the handler that
  the event loop resumes.
\<close>

fun run_schedule ::
    "env \<Rightarrow> nat list \<Rightarrow> db \<times> (accept_request \<times> accept_task) list
       \<Rightarrow> db \<times> (accept_request \<times> accept_task) list" where
  "run_schedule e [] (d, ts) = (d, ts)"
| "run_schedule e (i # sched) (d, ts) =
     (if i < length ts
      then (let (d1, t1) = accept_step e (fst (ts ! i)) (d, snd (ts ! i))
            in run_schedule e sched (d1, ts[i := (fst (ts ! i), t1)]))
      else run_schedule e sched (d, ts))"

definition succeeded :: "accept_request \<times> accept_task \<Rightarrow> bool" where
  "succeeded t = (snd t = Responded (Response 200 ''Ride accepted successfully''))"

definition already_assigned :: "accept_request \<times> accept_task \<Rightarrow> bool" where
  "already_assigned t =
     (snd t = Responded (Response 400 ''Ride is not available for acceptance''))"


section \<open>The status route as the event loop runs it\<close>

text \<open>
  The handler of \<^verbatim>\<open>PUT /:rideId/status\<close> is suspended at each \<^verbatim>\<open>await\<close> too: after
  the ride is read, at the save of \<^verbatim>\<open>updateStatus\<close>, at the save of
  \<^verbatim>\<open>addDriverLocation\<close>, and in the \<^verbatim>\<open>completed\<close> branch at the read and the save of
  the driver and at the read and the save of the passenger. A task holds the documents of
  the local variables; the test of the transition table is made once, on the ride as it
  was read.
\<close>

datatype status_task =
    Status_findRide
  | Status_saveStatus ride_doc bool
  | Status_saveLocation ride_doc
  | Status_findDriver ride_doc
  | Status_saveDriver ride_doc driver_doc
  | Status_findPassenger ride_doc
  | Status_savePassenger user_doc
  | Status_responded response

definition after_ride_saved :: "status_request \<Rightarrow> ride_doc \<Rightarrow> status_task" where
  "after_ride_saved rq r =
     (if st_status rq = ''completed'' then Status_findDriver r
      else Status_responded (Response 200 ''Ride status updated successfully''))"

fun status_step :: "env \<Rightarrow> status_request \<Rightarrow> db \<times> status_task \<Rightarrow> db \<times> status_task" where
  "status_step e rq (d, Status_findRide) =
     (case Ride_findById (st_rideId rq) d of
        None \<Rightarrow> (d, Status_responded (Response 404 ''Ride not found''))
      | Some ride \<Rightarrow>
          (let isPassenger = (passenger ride = st_user rq);
               isDriver = (driver ride = Some (st_user rq))
           in if \<not> isPassenger \<and> \<not> isDriver
              then (d, Status_responded (Response 403 ''Not authorized to update this ride''))
              else
                (case map_of validTransitions (status ride) of
                   None \<Rightarrow> (d, Status_responded (Response 500 ''Failed to update ride status''))
                 | Some targets \<Rightarrow>
                     if st_status rq \<in> set targets
                     then (d, Status_saveStatus
                                (fst (updateStatus (now e) (st_status rq) ride d)) isDriver)
                     else (d, Status_responded (Response 400 ''Invalid status transition'')))))"
| "status_step e rq (d, Status_saveStatus r isDriver) =
     (Ride_save r d,
      case st_location rq of
        None \<Rightarrow> after_ride_saved rq r
      | Some l \<Rightarrow>
          if isDriver
          then Status_saveLocation
                 (fst (addDriverLocation (now e) (loc_coordinates l) (loc_heading l)
                         (loc_speed l) r d))
          else after_ride_saved rq r)"
| "status_step e rq (d, Status_saveLocation r) = (Ride_save r d, after_ride_saved rq r)"
| "status_step e rq (d, Status_findDriver r) =
     (d, case driver r of
           None \<Rightarrow> Status_findPassenger r
         | Some i \<Rightarrow>
             (case Driver_findById i d of
                None \<Rightarrow> Status_findPassenger r
              | Some v \<Rightarrow>
                  Status_saveDriver r
                    (v\<lparr>isAvailable := True,
                       stats := (stats v)\<lparr>totalRides := totalRides (stats v) + 1,
                                          totalDistance := totalDistance (stats v)
                                                             + distance r\<rparr>\<rparr>)))"
| "status_step e rq (d, Status_saveDriver r v) = (Driver_save v d, Status_findPassenger r)"
| "status_step e rq (d, Status_findPassenger r) =
     (d, case User_findById (passenger r) d of
           None \<Rightarrow> Status_responded (Response 200 ''Ride status updated successfully'')
         | Some p \<Rightarrow> Status_savePassenger (p\<lparr>user_totalRides := user_totalRides p + 1\<rparr>))"
| "status_step e rq (d, Status_savePassenger p) =
     (User_save p d, Status_responded (Response 200 ''Ride status updated successfully''))"
| "status_step e rq (d, Status_responded res) = (d, Status_responded res)"

fun run_status_schedule ::
    "env \<Rightarrow> nat list \<Rightarrow> db \<times> (status_request \<times> status_task) list
       \<Rightarrow> db \<times> (status_request \<times> status_task) list" where
  "run_status_schedule e [] (d, ts) = (d, ts)"
| "run_status_schedule e (i # sched) (d, ts) =
     (if i < length ts
      then (let (d1, t1) = status_step e (fst (ts ! i)) (d, snd (ts ! i))
            in run_status_schedule e sched (d1, ts[i := (fst (ts ! i), t1)]))
      else run_status_schedule e sched (d, ts))"

section \<open>What is read off the collections\<close>

text \<open>
  The ride counter and the earnings of the driver document with a given identifier, and
  the ride counter of a user, when the document exists.
\<close>

definition driver_rides :: "oid \<Rightarrow> db \<Rightarrow> int option" where
  "driver_rides i d = map_option (\<lambda>v. totalRides (stats v)) (Driver_findById i d)"

definition driver_earned :: "oid \<Rightarrow> db \<Rightarrow> driver_earnings option" where
  "driver_earned i d = map_option earnings (Driver_findById i d)"

definition passenger_rides :: "oid \<Rightarrow> db \<Rightarrow> int option" where
  "passenger_rides u d = map_option user_totalRides (User_findById u d)"

text \<open>
  A task that is about to save a driver holds the earnings that the collection has for
  that driver.
\<close>

definition holds_current_earnings :: "db \<Rightarrow> status_task \<Rightarrow> bool" where
  "holds_current_earnings d t =
     (case t of
        Status_saveDriver r v \<Rightarrow> driver_earned (driver_id v) d = Some (earnings v)
      | _ \<Rightarrow> True)"

definition ok_status :: response where
  "ok_status = Response 200 ''Ride status updated successfully''"

section \<open>The transition table and the escalating search of the specification\<close>

text \<open>
  The table of the ride state machine as the specification lists it (source status and
  allowed targets), to be compared with \<^const>\<open>validTransitions\<close>.
\<close>

definition spec_transitions :: "(string \<times> string list) list" where
  "spec_transitions =
     [(''requested'', [''searching'', ''cancelled'']),
      (''searching'', [''driver_assigned'', ''cancelled'']),
      (''driver_assigned'', [''driver_arrived'', ''cancelled'']),
      (''driver_arrived'', [''pickup_confirmed'', ''cancelled'']),
      (''pickup_confirmed'', [''in_progress'']),
      (''in_progress'', [''completed'']),
      (''completed'', []),
      (''cancelled'', [])]"

definition in_spec_table :: "string \<Rightarrow> string \<Rightarrow> bool" where
  "in_spec_table s t = (case map_of spec_transitions s of None \<Rightarrow> False | Some ts \<Rightarrow> t \<in> set ts)"


section \<open>Sample documents\<close>

text \<open>
  Concrete inputs for the evaluations below. \<open>grid_metres\<close> stands in for both distance
  functions: 100 km per degree, along the grid lines.
\<close>

definition grid_metres :: "real \<times> real \<Rightarrow> real \<times> real \<Rightarrow> real" where
  "grid_metres a b = 100000 * (\<bar>fst a - fst b\<bar> + \<bar>snd a - snd b\<bar>)"

definition sample_pickup :: coords where
  "sample_pickup = (77.1, 28.6)"

definition sample_destination :: coords where
  "sample_destination = (77.2, 28.7)"

definition sample_env :: env where
  "sample_env = \<lparr>getDistance = grid_metres, near_metres = grid_metres, now = 1000,
                  random = 1 / 2, fresh_id = 7, generated_rideId = ''RIDE1000ABCDEFGHI''\<rparr>"

definition sample_new_ride :: ride_doc where
  "sample_new_ride =
     new_Ride 7 10 sample_pickup sample_destination ''car'' ''cash'' 10 20 ''5500''"

definition sample_surged :: "bool \<Rightarrow> real \<Rightarrow> ride_doc" where
  "sample_surged a m = sample_new_ride\<lparr>surge := \<lparr>isActive = a, multiplier = m\<rparr>\<rparr>"

definition sample_ride :: "string \<Rightarrow> oid option \<Rightarrow> ride_doc" where
  "sample_ride st drv =
     (calculateFare sample_new_ride (getFareConfig ''car''))
       \<lparr>rideId := Some ''RIDE7'', status := st, driver := drv\<rparr>"

definition sample_driver :: "oid \<Rightarrow> oid \<Rightarrow> coords \<Rightarrow> driver_doc" where
  "sample_driver i u l =
     \<lparr>driver_id = i, userId = u, backgroundCheckStatus = ''approved'', isAvailable = True,
      isOnline = True, currentLocation = Some l, vehicle_type = ''car'',
      earnings = \<lparr>today = 0, thisWeek = 0, thisMonth = 0, total = 0\<rparr>,
      stats = \<lparr>totalRides = 0, totalDistance = 0, cancelledRides = 0\<rparr>,
      approvalStatus = ''approved''\<rparr>"

definition sample_db :: "ride_doc list \<Rightarrow> driver_doc list \<Rightarrow> db" where
  "sample_db rs vs = \<lparr>rides = rs, drivers = vs, users = [\<lparr>user_id = 10, user_totalRides = 0\<rparr>]\<rparr>"

definition sample_accept :: "oid \<Rightarrow> accept_request" where
  "sample_accept u = \<lparr>ac_rideId = 7, ac_user = u, ac_currentLocation = Some sample_pickup\<rparr>"

definition sample_request :: ride_request where
  "sample_request = \<lparr>rq_user = 10, rq_pickup = sample_pickup, rq_destination = sample_destination,
                      rq_vehicleType = ''car'', rq_paymentMethod = ''cash'',
                      rq_promoCode = None\<rparr>"

definition sample_status :: "string \<Rightarrow> status_request" where
  "sample_status s = \<lparr>st_rideId = 7, st_user = 10, st_status = s, st_location = None\<rparr>"

definition sample_trip :: db where
  "sample_trip =
     sample_db [sample_ride ''in_progress'' (Some 21)] [sample_driver 21 31 sample_pickup]"

definition sample_offer :: db where
  "sample_offer =
     sample_db [sample_ride ''searching'' None]
       [sample_driver 21 31 sample_pickup, sample_driver 22 32 sample_pickup]"



definition sample_no_rides :: db where
  "sample_no_rides = sample_db [] [sample_driver 21 31 (77.1, 28.66)]"

definition sample_unsearched :: db where
  "sample_unsearched = sample_db [sample_ride ''requested'' None] []"

definition sample_assigned :: db where
  "sample_assigned =
     sample_db [sample_ride ''driver_assigned'' (Some 21)]
       [sample_driver 21 31 sample_pickup, sample_driver 22 32 sample_pickup]"

section \<open>Properties of the fare calculator\<close>

lemma Math_round_mono: "x \<le> y \<Longrightarrow> Math_round x \<le> Math_round y"
  unfolding Math_round_def by (simp add: floor_mono)

lemma Math_round_of_int: "Math_round (of_int k) = of_int k"
proof -
  have "\<lfloor>real_of_int k + 1 / 2\<rfloor> = k" by linarith
  then show ?thesis by (simp add: Math_round_def)
qed

lemma Math_round_near: "\<bar>Math_round x - x\<bar> \<le> 1 / 2"
  unfolding Math_round_def by linarith

lemma getFareConfig_car: "getFareConfig ''car'' = configs_car"
  by (simp add: getFareConfig_def configs_def configs_car_def)

lemma minimumFare_integer: "\<exists>k::int. minimumFare (getFareConfig vt) = of_int k"
proof -
  have "minimumFare (getFareConfig vt) \<in> {25, 40, 60, 80}"
    by (simp add: getFareConfig_def configs_def configs_car_def)
  moreover have "(25::real) = of_int 25" "(40::real) = of_int 40"
    "(60::real) = of_int 60" "(80::real) = of_int 80"
    by simp_all
  ultimately show ?thesis by (metis insertE singletonD)
qed

lemma surgeFare_calculateFare:
  "surgeFare (fare (calculateFare r cfg)) =
     (if isActive (surge r) then subtotal_before_surge r cfg * (multiplier (surge r) - 1)
      else surgeFare (fare r))"
  by (simp add: calculateFare_def Let_def split_beta subtotal_after_surge_def
      subtotal_before_surge_def)

lemma platformFee_calculateFare:
  "platformFee (fare (calculateFare r cfg)) = Math_round (subtotal_after_surge r cfg * 0.05)"
  by (simp add: calculateFare_def Let_def split_beta subtotal_after_surge_def
      subtotal_before_surge_def)

lemma taxes_calculateFare:
  "taxes (fare (calculateFare r cfg)) = Math_round (subtotal_after_surge r cfg * 0.18)"
  by (simp add: calculateFare_def Let_def split_beta subtotal_after_surge_def
      subtotal_before_surge_def)

lemma totalFare_calculateFare:
  "totalFare (fare (calculateFare r cfg)) =
     Math_round (Math_max
       (subtotal_after_surge r cfg
          + Math_round (subtotal_after_surge r cfg * 0.05)
          + Math_round (subtotal_after_surge r cfg * 0.18)
          - (discount (fare r) + couponDiscount (fare r)))
       (minimumFare cfg))"
  by (simp add: calculateFare_def Let_def split_beta subtotal_after_surge_def
      subtotal_before_surge_def)

lemma components_calculateFare:
  "baseFare (fare (calculateFare r cfg)) = baseRate cfg"
  "distanceFare (fare (calculateFare r cfg)) = distance r * perKmRate cfg"
  "timeFare (fare (calculateFare r cfg)) = estimatedDuration r * perMinuteRate cfg"
  by (simp_all add: calculateFare_def Let_def split_beta)

lemma earning_calculateFare:
  "driverEarning (fare (calculateFare r cfg))
     = Some (Math_round (totalFare (fare (calculateFare r cfg)) * 0.8))"
  "platformCommission (fare (calculateFare r cfg))
     = Some (totalFare (fare (calculateFare r cfg))
             - Math_round (totalFare (fare (calculateFare r cfg)) * 0.8))"
  by (simp_all add: calculateFare_def Let_def split_beta)

text \<open>
  C6, as the claim states it, fails: the surge branch is taken on the flag
  \<^verbatim>\<open>surge.isActive\<close>, not on the multiplier. A ride with the flag set and a multiplier
  of one half gets a surge fare of \<open>-120\<close> and a smaller subtotal; a ride with the flag
  unset and a multiplier of two gets no surge fare.
\<close>

theorem C6_counterexample:
  "multiplier (surge (sample_surged True (1 / 2))) \<le> 1
   \<and> surgeFare (fare (calculateFare (sample_surged True (1 / 2)) (getFareConfig ''car'')))
       = - 120
   \<and> subtotal_before_surge (sample_surged True (1 / 2)) (getFareConfig ''car'') = 240
   \<and> subtotal_after_surge (sample_surged True (1 / 2)) (getFareConfig ''car'') = 120
   \<and> multiplier (surge (sample_surged False 2)) > 1
   \<and> surgeFare (fare (calculateFare (sample_surged False 2) (getFareConfig ''car''))) = 0
   \<and> subtotal_before_surge (sample_surged False 2) (getFareConfig ''car'') = 240
   \<and> subtotal_after_surge (sample_surged False 2) (getFareConfig ''car'') = 240"
  by (simp add: surgeFare_calculateFare subtotal_after_surge_def subtotal_before_surge_def
      getFareConfig_car configs_car_def sample_surged_def sample_new_ride_def new_Ride_def)

text \<open>
  C6, amended: \<^verbatim>\<open>calculateFare\<close> adds a surge component if and only if the flag
  \<^verbatim>\<open>surge.isActive\<close> of the ride is set. Then the surge fare is the subtotal times the
  multiplier minus one, and it is added to the subtotal before the platform fee and the
  tax are taken. With the flag unset the surge fare keeps the value it had and the
  subtotal is unchanged. The platform fee and the tax are 5% and 18% of the subtotal after
  the surge branch, each rounded.
\<close>

theorem C6_surge_on_flag:
  "(isActive (surge r) \<longrightarrow>
      surgeFare (fare (calculateFare r cfg))
        = subtotal_before_surge r cfg * (multiplier (surge r) - 1)
      \<and> subtotal_after_surge r cfg
        = subtotal_before_surge r cfg + surgeFare (fare (calculateFare r cfg)))
   \<and> (\<not> isActive (surge r) \<longrightarrow>
      surgeFare (fare (calculateFare r cfg)) = surgeFare (fare r)
      \<and> subtotal_after_surge r cfg = subtotal_before_surge r cfg)
   \<and> platformFee (fare (calculateFare r cfg)) = Math_round (subtotal_after_surge r cfg * 0.05)
   \<and> taxes (fare (calculateFare r cfg)) = Math_round (subtotal_after_surge r cfg * 0.18)"
  by (simp add: surgeFare_calculateFare platformFee_calculateFare taxes_calculateFare
      subtotal_after_surge_def)

theorem C6_surge_on_flag_witness:
  "isActive (surge (sample_surged True (3 / 2)))
   \<and> surgeFare (fare (calculateFare (sample_surged True (3 / 2)) configs_car)) = 120
   \<and> subtotal_after_surge (sample_surged True (3 / 2)) configs_car = 360
   \<and> \<not> isActive (surge sample_new_ride)
   \<and> surgeFare (fare (calculateFare sample_new_ride configs_car)) = 0
   \<and> subtotal_after_surge sample_new_ride configs_car = 240"
  using C6_surge_on_flag [of "sample_surged True (3 / 2)" configs_car]
    C6_surge_on_flag [of sample_new_ride configs_car]
  by (simp add: subtotal_before_surge_def configs_car_def sample_surged_def
      sample_new_ride_def new_Ride_def)

lemma Math_round_at_least: "of_int k \<le> Math_round (Math_max x (of_int k))"
proof -
  have "Math_round (of_int k) \<le> Math_round (Math_max x (of_int k))"
    by (rule Math_round_mono) (simp add: Math_max_def)
  then show ?thesis by (simp add: Math_round_of_int)
qed

text \<open>
  C7: for every ride and every vehicle type, the total fare that \<^verbatim>\<open>calculateFare\<close>
  stores under the configuration of the vehicle type is at least the minimum fare of that
  configuration.
\<close>

theorem C7_total_at_least_minimum:
  "minimumFare (getFareConfig vt) \<le> totalFare (fare (calculateFare r (getFareConfig vt)))"
proof -
  obtain k :: int where k: "minimumFare (getFareConfig vt) = of_int k"
    using minimumFare_integer by blast
  have "totalFare (fare (calculateFare r (getFareConfig vt)))
          = Math_round (Math_max
              (subtotal_after_surge r (getFareConfig vt)
                 + Math_round (subtotal_after_surge r (getFareConfig vt) * 0.05)
                 + Math_round (subtotal_after_surge r (getFareConfig vt) * 0.18)
                 - (discount (fare r) + couponDiscount (fare r)))
              (of_int k))"
    by (simp add: totalFare_calculateFare k)
  then show ?thesis
    using Math_round_at_least [of k] by (simp add: k)
qed

text \<open>
  C8: a ride of 10 km and 20 minutes, priced with the configuration of \<^verbatim>\<open>car\<close>
  (base rate 50, 15 per km, 2 per minute, minimum fare 60), with a surge multiplier of 1
  and no discount, has the subtotal 240 = 50 + 150 + 40, the platform fee 12, the tax
  18% of 240 rounded (43) and the total fare 295.
\<close>

theorem C8_car_scenario:
  assumes "distance r = 10" and "estimatedDuration r = 20"
    and "multiplier (surge r) = 1"
    and "discount (fare r) = 0" and "couponDiscount (fare r) = 0"
  shows "baseRate (getFareConfig ''car'') = 50 \<and> perKmRate (getFareConfig ''car'') = 15
    \<and> perMinuteRate (getFareConfig ''car'') = 2 \<and> minimumFare (getFareConfig ''car'') = 60
    \<and> baseFare (fare (calculateFare r (getFareConfig ''car''))) = 50
    \<and> distanceFare (fare (calculateFare r (getFareConfig ''car''))) = 150
    \<and> timeFare (fare (calculateFare r (getFareConfig ''car''))) = 40
    \<and> subtotal_before_surge r (getFareConfig ''car'') = 240
    \<and> subtotal_after_surge r (getFareConfig ''car'') = 240
    \<and> platformFee (fare (calculateFare r (getFareConfig ''car''))) = 12
    \<and> taxes (fare (calculateFare r (getFareConfig ''car''))) = Math_round (0.18 * 240)
    \<and> taxes (fare (calculateFare r (getFareConfig ''car''))) = 43
    \<and> totalFare (fare (calculateFare r (getFareConfig ''car''))) = 295"
proof -
  have b: "subtotal_before_surge r configs_car = 240"
    using assms by (simp add: subtotal_before_surge_def configs_car_def)
  have a: "subtotal_after_surge r configs_car = 240"
    using assms b by (simp add: subtotal_after_surge_def)
  have c: "baseRate configs_car = 50" "perKmRate configs_car = 15"
    "perMinuteRate configs_car = 2" "minimumFare configs_car = 60"
    by (simp_all add: configs_car_def)
  have tot: "totalFare (fare (calculateFare r configs_car)) = 295"
    using assms by (simp add: totalFare_calculateFare a c Math_max_def Math_round_def)
  show ?thesis
    using assms a b tot
    by (simp add: getFareConfig_car components_calculateFare platformFee_calculateFare
        taxes_calculateFare c Math_round_def)
qed

theorem C8_car_scenario_witness:
  "distance sample_new_ride = 10 \<and> estimatedDuration sample_new_ride = 20
   \<and> multiplier (surge sample_new_ride) = 1
   \<and> discount (fare sample_new_ride) = 0 \<and> couponDiscount (fare sample_new_ride) = 0
   \<and> totalFare (fare (calculateFare sample_new_ride (getFareConfig ''car''))) = 295"
  using C8_car_scenario [of sample_new_ride]
  by (simp add: sample_new_ride_def new_Ride_def)

text \<open>
  C9: after every fare computation the driver earning is the total fare times 0.8 rounded
  to the nearest integer, the platform commission is the rest, and the two add up to the
  total fare exactly.
\<close>

theorem C9_earning_split:
  "\<exists>earning commission.
     driverEarning (fare (calculateFare r cfg)) = Some earning
     \<and> platformCommission (fare (calculateFare r cfg)) = Some commission
     \<and> earning = Math_round (totalFare (fare (calculateFare r cfg)) * 0.8)
     \<and> earning \<in> \<int>
     \<and> \<bar>earning - totalFare (fare (calculateFare r cfg)) * 0.8\<bar> \<le> 1 / 2
     \<and> earning + commission = totalFare (fare (calculateFare r cfg))"
proof -
  have "Math_round (totalFare (fare (calculateFare r cfg)) * 0.8) \<in> \<int>"
    by (simp add: Math_round_def)
  then show ?thesis
    using Math_round_near [of "totalFare (fare (calculateFare r cfg)) * 0.8"]
    by (simp add: earning_calculateFare)
qed

section \<open>Properties of the pickup code\<close>

lemma toString_nat_digit: "n < 10 \<Longrightarrow> toString_nat n = [digit_char n]"
  by (simp add: toString_nat.simps)

lemma toString_nat_more:
  "\<not> n < 10 \<Longrightarrow> toString_nat n = toString_nat (n div 10) @ [digit_char (n mod 10)]"
  by (subst toString_nat.simps) simp

lemma digit_char_digit: "d < 10 \<Longrightarrow> digit_char d \<in> set ''0123456789''"
  unfolding digit_char_def by (rule nth_mem) simp

lemma toString_nat_digits: "set (toString_nat n) \<subseteq> set ''0123456789''"
proof (induction n rule: toString_nat.induct)
  case (1 n)
  show ?case
  proof (cases "n < 10")
    case True
    then show ?thesis using digit_char_digit [of n] by (simp add: toString_nat_digit)
  next
    case False
    have "n mod 10 < 10" by simp
    then have "digit_char (n mod 10) \<in> set ''0123456789''" by (rule digit_char_digit)
    with False 1 show ?thesis by (simp add: toString_nat_more)
  qed
qed

lemma toString_nat_four: "1000 \<le> n \<Longrightarrow> n \<le> 9999 \<Longrightarrow> length (toString_nat n) = 4"
  by (simp add: toString_nat_more toString_nat_digit div_mult2_eq [symmetric])

lemma otp_number_range:
  "0 \<le> rnd \<Longrightarrow> rnd < 1 \<Longrightarrow> 1000 \<le> otp_number rnd \<and> otp_number rnd \<le> 9999"
  unfolding otp_number_def Math_floor_def by (simp add: le_floor_iff floor_le_iff)

text \<open>
  C10: for every value \<open>0 \<le> rnd < 1\<close> of \<^verbatim>\<open>Math.random()\<close>, the generated code is
  the decimal representation of an integer between 1000 and 9999: a string of exactly
  four characters, each a digit.
\<close>

theorem C10_otp_four_digits:
  assumes "0 \<le> rnd" and "rnd < 1"
  shows "generateOTP rnd = toString_int (otp_number rnd)
    \<and> 1000 \<le> otp_number rnd \<and> otp_number rnd \<le> 9999
    \<and> length (generateOTP rnd) = 4
    \<and> set (generateOTP rnd) \<subseteq> set ''0123456789''"
proof -
  have r: "1000 \<le> otp_number rnd" "otp_number rnd \<le> 9999"
    using otp_number_range [OF assms] by simp_all
  have g: "generateOTP rnd = toString_nat (nat (otp_number rnd))"
    using r by (simp add: generateOTP_def toString_int_def)
  have "1000 \<le> nat (otp_number rnd)" "nat (otp_number rnd) \<le> 9999"
    using r by simp_all
  then have "length (toString_nat (nat (otp_number rnd))) = 4"
    by (rule toString_nat_four)
  then show ?thesis
    using r g toString_nat_digits by (simp add: generateOTP_def)
qed

theorem C10_otp_four_digits_witness:
  "(0::real) \<le> 1 / 2 \<and> (1 / 2 :: real) < 1 \<and> generateOTP (1 / 2) = ''5500''
   \<and> otp_number (1 / 2) = 5500 \<and> length (generateOTP (1 / 2)) = 4"
  using C10_otp_four_digits [of "1 / 2"]
  by (simp add: generateOTP_def otp_number_def Math_floor_def toString_int_def
      toString_nat_more toString_nat_digit digit_char_def)

section \<open>Properties of the collections\<close>

lemma find_replace:
  "find (\<lambda>x. k x = i) (map (\<lambda>x. if k x = k v then v else x) xs)
     = (if i = k v then map_option (\<lambda>_. v) (find (\<lambda>x. k x = i) xs)
        else find (\<lambda>x. k x = i) xs)"
  by (induction xs) auto

lemma find_append_one:
  "find (\<lambda>x. k x = i) (xs @ [v])
     = (case find (\<lambda>x. k x = i) xs of
          Some x \<Rightarrow> Some x
        | None \<Rightarrow> if k v = i then Some v else None)"
  by (induction xs) auto

lemma find_key: "find (\<lambda>x. k x = i) xs = Some x \<Longrightarrow> k x = i"
  by (auto simp: find_Some_iff)

lemma Ride_save_others [simp]:
  "drivers (Ride_save r d) = drivers d" "users (Ride_save r d) = users d"
  by (simp_all add: Ride_save_def split: option.splits)

lemma Driver_save_others [simp]:
  "rides (Driver_save v d) = rides d" "users (Driver_save v d) = users d"
  by (simp_all add: Driver_save_def split: option.splits)

lemma User_save_others [simp]:
  "rides (User_save u d) = rides d" "drivers (User_save u d) = drivers d"
  by (simp_all add: User_save_def split: option.splits)

lemma Ride_findById_save:
  "Ride_findById i (Ride_save r d) = (if i = ride_id r then Some r else Ride_findById i d)"
  by (auto simp: Ride_findById_def Ride_save_def find_replace find_append_one
      split: option.splits)

lemma Driver_findById_save:
  "Driver_findById i (Driver_save v d)
     = (if i = driver_id v then Some v else Driver_findById i d)"
  by (auto simp: Driver_findById_def Driver_save_def find_replace find_append_one
      split: option.splits)

lemma User_findById_save:
  "User_findById i (User_save u d) = (if i = user_id u then Some u else User_findById i d)"
  by (auto simp: User_findById_def User_save_def find_replace find_append_one
      split: option.splits)

lemma Ride_findById_cong: "rides d1 = rides d2 \<Longrightarrow> Ride_findById i d1 = Ride_findById i d2"
  by (simp add: Ride_findById_def)

lemma Ride_findById_id: "Ride_findById i d = Some r \<Longrightarrow> ride_id r = i"
  unfolding Ride_findById_def by (rule find_key)

lemma Driver_findById_id: "Driver_findById i d = Some v \<Longrightarrow> driver_id v = i"
  unfolding Driver_findById_def by (rule find_key)

lemma User_findById_id: "User_findById i d = Some u \<Longrightarrow> user_id u = i"
  unfolding User_findById_def by (rule find_key)

lemma driver_rides_cong: "drivers d1 = drivers d2 \<Longrightarrow> driver_rides i d1 = driver_rides i d2"
  by (simp add: driver_rides_def Driver_findById_def)

lemma driver_earned_cong: "drivers d1 = drivers d2 \<Longrightarrow> driver_earned i d1 = driver_earned i d2"
  by (simp add: driver_earned_def Driver_findById_def)

lemma passenger_rides_cong:
  "users d1 = users d2 \<Longrightarrow> passenger_rides i d1 = passenger_rides i d2"
  by (simp add: passenger_rides_def User_findById_def)

lemma Driver_find_near_cong:
  "drivers d1 = drivers d2 \<Longrightarrow> Driver_find_near e vt p m d1 = Driver_find_near e vt p m d2"
  by (simp add: Driver_find_near_def)

section \<open>The sample documents, field by field\<close>

lemma calculateFare_other:
  "ride_id (calculateFare r cfg) = ride_id r"
  "passenger (calculateFare r cfg) = passenger r"
  "driver (calculateFare r cfg) = driver r"
  "status (calculateFare r cfg) = status r"
  "pickup (calculateFare r cfg) = pickup r"
  "distance (calculateFare r cfg) = distance r"
  "cancellationReason (calculateFare r cfg) = cancellationReason r"
  "rideId (calculateFare r cfg) = rideId r"
  "castErrors (calculateFare r cfg) = castErrors r"
  by (simp_all add: calculateFare_def Let_def split_beta)

lemma sample_ride_fields:
  "ride_id (sample_ride st drv) = 7"
  "passenger (sample_ride st drv) = 10"
  "driver (sample_ride st drv) = drv"
  "status (sample_ride st drv) = st"
  "pickup (sample_ride st drv) = sample_pickup"
  "distance (sample_ride st drv) = 10"
  by (simp_all add: sample_ride_def calculateFare_other sample_new_ride_def new_Ride_def)

lemma sample_ride_earning: "driverEarning (fare (sample_ride st drv)) = Some 236"
  by (simp add: sample_ride_def earning_calculateFare totalFare_calculateFare
      subtotal_after_surge_def subtotal_before_surge_def getFareConfig_car configs_car_def
      sample_new_ride_def new_Ride_def Math_round_def Math_max_def)

lemma sample_driver_fields:
  "driver_id (sample_driver i u l) = i"
  "userId (sample_driver i u l) = u"
  "isAvailableForRides (sample_driver i u l)"
  "isAvailable (sample_driver i u l)"
  "earnings (sample_driver i u l) = \<lparr>today = 0, thisWeek = 0, thisMonth = 0, total = 0\<rparr>"
  "stats (sample_driver i u l) = \<lparr>totalRides = 0, totalDistance = 0, cancelledRides = 0\<rparr>"
  by (simp_all add: sample_driver_def isAvailableForRides_def)

lemma sample_env_fields:
  "getDistance sample_env = grid_metres" "near_metres sample_env = grid_metres"
  "now sample_env = 1000" "random sample_env = 1 / 2" "fresh_id sample_env = 7"
  by (simp_all add: sample_env_def)


section \<open>Properties of the accept route\<close>

text \<open>Run without interruption, the four steps of a handler are the route as it reads.\<close>

lemma accept_route_steps:
  "(accept_step e rq ^^ 4) (d, Await_findRide)
     = (fst (accept_route e rq d), Responded (snd (accept_route e rq d)))"
  by (simp add: accept_route_def numeral_eq_Suc Let_def split: option.splits)

text \<open>
  One handler after the other: once an attempt has been accepted, every later attempt on
  the same ride is refused and changes nothing.
\<close>

lemma accept_route_then_refused:
  assumes "accept_route e rq d = (d', Response 200 ''Ride accepted successfully'')"
    and "ac_rideId rq' = ac_rideId rq"
  shows "accept_route e' rq' d' = (d', Response 400 ''Ride is not available for acceptance'')"
proof -
  from assms(1) obtain ride v l where
    r: "Ride_findById (ac_rideId rq) d = Some ride"
    and d': "d' = Driver_save (v\<lparr>isAvailable := False, currentLocation := Some l\<rparr>)
                   (Ride_save (ride\<lparr>driver := Some (driver_id v),
                                      status := ''driver_assigned'',
                                      assignedAt := Some (now e)\<rparr>) d)"
    by (auto simp: accept_route_def Let_def split: option.splits if_splits)
  have "ride_id ride = ac_rideId rq" using r by (rule Ride_findById_id)
  then have "Ride_findById (ac_rideId rq') d'
      = Some (ride\<lparr>driver := Some (driver_id v), status := ''driver_assigned'',
                    assignedAt := Some (now e)\<rparr>)"
    by (simp add: d' assms(2) Ride_findById_save
        Ride_findById_cong [of "Driver_save w x" x for w x])
  then show ?thesis by (simp add: accept_route_def)
qed

text \<open>
  Two handlers resumed in turn: when both attempts are eligible on their own, both are
  accepted, whatever else the database holds.
\<close>

lemma interleaved_both_accepted:
  assumes "Ride_findById (ac_rideId a) d = Some ride" and "ac_rideId b = ac_rideId a"
    and "status ride = ''searching''"
    and "Driver_findOne_userId (ac_user a) d = Some v" and "isAvailableForRides v"
    and "Driver_findOne_userId (ac_user b) d = Some w" and "isAvailableForRides w"
    and "ac_currentLocation a = Some l"
    and "\<not> getDistance e (snd l, fst l) (snd (pickup ride), fst (pickup ride)) > 5000"
    and "ac_currentLocation b = Some m"
    and "\<not> getDistance e (snd m, fst m) (snd (pickup ride), fst (pickup ride)) > 5000"
  shows "\<exists>d'. run_schedule e [0, 1, 0, 1, 0, 1, 0, 1]
                 (d, [(a, Await_findRide), (b, Await_findRide)])
           = (d', [(a, Responded (Response 200 ''Ride accepted successfully'')),
                   (b, Responded (Response 200 ''Ride accepted successfully''))])"
  using assms by simp

text \<open>
  C1 fails on the program. Two eligible drivers accept the sample ride, which is in
  \<^verbatim>\<open>searching\<close>, and the event loop resumes the two handlers in turn: both read the ride
  before either saves it, both pass the status test, both save and both answer 200. The
  second save overwrites the driver of the first, and both drivers are made unavailable.
\<close>

theorem C1_two_winners:
  "map status (rides sample_offer) = [''searching'']
   \<and> (let (d, ts) = run_schedule sample_env [0, 1, 0, 1, 0, 1, 0, 1]
                       (sample_offer,
                        [(sample_accept 31, Await_findRide), (sample_accept 32, Await_findRide)])
      in succeeded (ts ! 0) \<and> succeeded (ts ! 1)
         \<and> \<not> already_assigned (ts ! 0) \<and> \<not> already_assigned (ts ! 1)
         \<and> map driver (rides d) = [Some 22]
         \<and> map isAvailable (drivers d) = [False, False])"
  by (simp add: sample_ride_fields sample_driver_fields sample_env_fields sample_db_def
      sample_offer_def sample_accept_def Ride_findById_def Driver_findOne_userId_def
      Driver_findById_def Ride_save_def Driver_save_def grid_metres_def succeeded_def
      already_assigned_def)

text \<open>The same two attempts, the first handler run to its end before the second starts.\<close>

lemma one_winner_in_sequence:
  "(let (d, ts) = run_schedule sample_env [0, 0, 0, 0, 1, 1, 1, 1]
                    (sample_offer,
                     [(sample_accept 31, Await_findRide), (sample_accept 32, Await_findRide)])
    in succeeded (ts ! 0) \<and> already_assigned (ts ! 1)
       \<and> map driver (rides d) = [Some 21]
       \<and> map isAvailable (drivers d) = [False, True])"
  by (simp add: sample_ride_fields sample_driver_fields sample_env_fields sample_db_def
      sample_offer_def sample_accept_def Ride_findById_def Driver_findOne_userId_def
      Driver_findById_def Ride_save_def Driver_save_def grid_metres_def succeeded_def
      already_assigned_def)

text \<open>
  C2: an attempt to accept a ride whose status is not \<^verbatim>\<open>searching\<close> is answered 400,
  ``Ride is not available for acceptance'', and leaves the database as it was: the ride and
  every driver document are unchanged. The handler answers at its first step.
\<close>

theorem C2_not_searching:
  assumes "Ride_findById (ac_rideId rq) d = Some ride" and "status ride \<noteq> ''searching''"
  shows "accept_route e rq d = (d, Response 400 ''Ride is not available for acceptance'')
    \<and> accept_step e rq (d, Await_findRide)
        = (d, Responded (Response 400 ''Ride is not available for acceptance''))"
  using assms by (simp add: accept_route_def)

theorem C2_not_searching_witness:
  "Ride_findById (ac_rideId (sample_accept 32)) sample_assigned
     = Some (sample_ride ''driver_assigned'' (Some 21))
   \<and> status (sample_ride ''driver_assigned'' (Some 21)) \<noteq> ''searching''
   \<and> accept_route sample_env (sample_accept 32) sample_assigned
     = (sample_assigned, Response 400 ''Ride is not available for acceptance'')"
proof -
  have f: "Ride_findById (ac_rideId (sample_accept 32)) sample_assigned
     = Some (sample_ride ''driver_assigned'' (Some 21))"
    by (simp add: Ride_findById_def sample_assigned_def sample_db_def sample_accept_def
        sample_ride_fields)
  have s: "status (sample_ride ''driver_assigned'' (Some 21)) \<noteq> ''searching''"
    by (simp add: sample_ride_fields)
  show ?thesis
    using C2_not_searching [OF f s, of sample_env] f s by simp
qed

section \<open>Properties of the status route\<close>

lemma updateStatus_facts:
  "snd (updateStatus t s r d) = Ride_save (fst (updateStatus t s r d)) d"
  "ride_id (fst (updateStatus t s r d)) = ride_id r"
  "passenger (fst (updateStatus t s r d)) = passenger r"
  "driver (fst (updateStatus t s r d)) = driver r"
  "status (fst (updateStatus t s r d)) = s"
  by (simp_all add: updateStatus_def Let_def)

lemma addDriverLocation_facts:
  "snd (addDriverLocation t c h sp r d) = Ride_save (fst (addDriverLocation t c h sp r d)) d"
  "ride_id (fst (addDriverLocation t c h sp r d)) = ride_id r"
  "passenger (fst (addDriverLocation t c h sp r d)) = passenger r"
  "driver (fst (addDriverLocation t c h sp r d)) = driver r"
  "status (fst (addDriverLocation t c h sp r d)) = status r"
  by (simp_all add: addDriverLocation_def Let_def)

lemma complete_driver_others [simp]:
  "rides (complete_driver r d) = rides d" "users (complete_driver r d) = users d"
  by (simp_all add: complete_driver_def split: option.splits)

lemma complete_passenger_others [simp]:
  "rides (complete_passenger r d) = rides d" "drivers (complete_passenger r d) = drivers d"
  by (simp_all add: complete_passenger_def split: option.splits)

lemma complete_driver_found:
  assumes "driver r = Some j" and "Driver_findById j d = Some v"
  shows "Driver_findById i (complete_driver r d)
     = (if i = j
        then Some (v\<lparr>isAvailable := True,
                    stats := (stats v)\<lparr>totalRides := totalRides (stats v) + 1,
                                       totalDistance := totalDistance (stats v) + distance r\<rparr>\<rparr>)
        else Driver_findById i d)"
proof -
  have "driver_id v = j" using assms(2) by (rule Driver_findById_id)
  then show ?thesis
    using assms by (simp add: complete_driver_def Driver_findById_save)
qed

lemma complete_driver_missing:
  "driver r = None \<or> (\<exists>j. driver r = Some j \<and> Driver_findById j d = None)
    \<Longrightarrow> complete_driver r d = d"
  by (auto simp: complete_driver_def)

lemma complete_driver_rides:
  "driver_rides i (complete_driver r d)
     = (if driver r = Some i then map_option (\<lambda>n. n + 1) (driver_rides i d)
        else driver_rides i d)"
proof (cases "driver r")
  case None
  then show ?thesis by (simp add: complete_driver_missing)
next
  case (Some j)
  show ?thesis
  proof (cases "Driver_findById j d")
    case None
    then show ?thesis using Some by (auto simp: complete_driver_missing driver_rides_def)
  next
    case (Some v)
    then show ?thesis
      using \<open>driver r = Some j\<close> by (auto simp: complete_driver_found driver_rides_def)
  qed
qed

lemma complete_driver_earned: "driver_earned i (complete_driver r d) = driver_earned i d"
proof (cases "driver r")
  case None
  then show ?thesis by (simp add: complete_driver_missing)
next
  case (Some j)
  show ?thesis
  proof (cases "Driver_findById j d")
    case None
    then show ?thesis using Some by (simp add: complete_driver_missing)
  next
    case (Some v)
    then show ?thesis
      using \<open>driver r = Some j\<close> by (simp add: complete_driver_found driver_earned_def)
  qed
qed

lemma complete_passenger_rides:
  "passenger_rides u (complete_passenger r d)
     = (if passenger r = u then map_option (\<lambda>n. n + 1) (passenger_rides u d)
        else passenger_rides u d)"
proof (cases "User_findById (passenger r) d")
  case None
  then show ?thesis by (auto simp: complete_passenger_def passenger_rides_def)
next
  case (Some p)
  then have "user_id p = passenger r" by (rule User_findById_id)
  then show ?thesis
    using Some by (auto simp: complete_passenger_def passenger_rides_def User_findById_save)
qed

text \<open>The shape of a successful run of the status route.\<close>

lemma status_route_ok:
  assumes "status_route e rq d = (d', ok_status)"
  obtains ride ts ride2 d2 where
    "Ride_findById (st_rideId rq) d = Some ride"
    "passenger ride = st_user rq \<or> driver ride = Some (st_user rq)"
    "map_of validTransitions (status ride) = Some ts" "st_status rq \<in> set ts"
    "drivers d2 = drivers d" "users d2 = users d"
    "Ride_findById (st_rideId rq) d2 = Some ride2"
    "passenger ride2 = passenger ride" "driver ride2 = driver ride"
    "status ride2 = st_status rq"
    "d' = (if st_status rq = ''completed''
           then complete_passenger ride2 (complete_driver ride2 d2) else d2)"
proof -
  from assms obtain ride where r: "Ride_findById (st_rideId rq) d = Some ride"
    by (auto simp: status_route_def ok_status_def split: option.splits)
  have rid: "ride_id ride = st_rideId rq" using r by (rule Ride_findById_id)
  from assms r have auth: "passenger ride = st_user rq \<or> driver ride = Some (st_user rq)"
    by (auto simp: status_route_def ok_status_def Let_def split: if_splits)
  from assms r auth obtain ts where ts: "map_of validTransitions (status ride) = Some ts"
    by (auto simp: status_route_def ok_status_def Let_def split: option.splits if_splits)
  from assms r auth ts have mem: "st_status rq \<in> set ts"
    by (auto simp: status_route_def ok_status_def Let_def split: if_splits)
  define u where "u = updateStatus (now e) (st_status rq) ride d"
  define w where "w = (case st_location rq of
       None \<Rightarrow> u
     | Some l \<Rightarrow> if driver ride = Some (st_user rq)
         then addDriverLocation (now e) (loc_coordinates l) (loc_heading l) (loc_speed l)
                (fst u) (snd u)
         else u)"
  have d': "d' = (if st_status rq = ''completed''
           then complete_passenger (fst w) (complete_driver (fst w) (snd w)) else snd w)"
    using assms r auth ts mem
    by (auto simp: status_route_def ok_status_def Let_def u_def w_def split_beta
        split: option.splits if_splits)
  have wsave: "snd w = Ride_save (fst w) (if w = u then d else snd u)"
    by (auto simp: w_def u_def updateStatus_facts(1) addDriverLocation_facts(1)
        split: option.splits)
  have wid: "ride_id (fst w) = st_rideId rq"
    by (simp add: w_def u_def updateStatus_facts addDriverLocation_facts rid
        split: option.splits)
  have 1: "drivers (snd w) = drivers d" "users (snd w) = users d"
    by (simp_all add: w_def u_def updateStatus_facts(1) addDriverLocation_facts(1)
        split: option.splits)
  have 2: "Ride_findById (st_rideId rq) (snd w) = Some (fst w)"
    by (subst wsave) (simp add: Ride_findById_save wid)
  have 3: "passenger (fst w) = passenger ride" "driver (fst w) = driver ride"
    "status (fst w) = st_status rq"
    by (simp_all add: w_def u_def updateStatus_facts addDriverLocation_facts
        split: option.splits)
  show thesis
    using that [OF r auth ts mem 1 2 3 d'] .
qed

lemma status_route_not_ok:
  "status_route e rq d = (d', res) \<Longrightarrow> res \<noteq> ok_status \<Longrightarrow> d' = d"
  by (auto simp: status_route_def ok_status_def Let_def split_beta
      split: option.splits if_splits)

lemma completed_only_from_in_progress:
  "map_of validTransitions s = Some ts \<Longrightarrow> ''completed'' \<in> set ts \<Longrightarrow> s = ''in_progress''"
  by (auto simp: validTransitions_def split: if_splits)

text \<open>Every pair that the table of the route allows is in the table of the specification.\<close>

lemma validTransitions_in_spec:
  "map_of validTransitions s = Some ts \<Longrightarrow> t \<in> set ts \<Longrightarrow> in_spec_table s t"
  by (auto simp: validTransitions_def in_spec_table_def spec_transitions_def split: if_splits)

text \<open>
  For a ride whose status is a key of \<^const>\<open>validTransitions\<close>, a request by the passenger
  or the driver of the ride for a target outside the table of the specification is answered
  400, ``Invalid status transition'', and changes nothing.
\<close>

lemma status_route_invalid:
  assumes "Ride_findById (st_rideId rq) d = Some ride"
    and "passenger ride = st_user rq \<or> driver ride = Some (st_user rq)"
    and "map_of validTransitions (status ride) = Some ts"
    and "\<not> in_spec_table (status ride) (st_status rq)"
  shows "status_route e rq d = (d, Response 400 ''Invalid status transition'')"
proof -
  have "st_status rq \<notin> set ts"
    using assms(3,4) validTransitions_in_spec by blast
  then show ?thesis
    using assms(1,2,3) by (auto simp: status_route_def Let_def)
qed

text \<open>
  C3 fails on the program at the status \<^verbatim>\<open>requested\<close>, which is not a key of
  \<^const>\<open>validTransitions\<close>: the passenger of a ride in \<^verbatim>\<open>requested\<close> asks for
  \<^verbatim>\<open>completed\<close>, a pair outside the table of the specification, and the answer is 500,
  ``Failed to update ride status'', not the 400 of an invalid transition. The ride is
  unchanged.
\<close>

theorem C3_requested_answers_500:
  "map status (rides sample_unsearched) = [''requested'']
   \<and> \<not> in_spec_table ''requested'' ''completed''
   \<and> map_of validTransitions ''requested'' = None
   \<and> status_route sample_env (sample_status ''completed'') sample_unsearched
     = (sample_unsearched, Response 500 ''Failed to update ride status'')"
  by (simp add: status_route_def Ride_findById_def sample_unsearched_def sample_db_def
      sample_status_def sample_ride_fields validTransitions_def in_spec_table_def
      spec_transitions_def)

lemma status_route_earned:
  assumes "status_route e rq d = (d', res)"
  shows "driver_earned i d' = driver_earned i d"
proof (cases "res = ok_status")
  case False
  then have "d' = d" using assms status_route_not_ok by blast
  then show ?thesis by simp
next
  case True
  with assms have "status_route e rq d = (d', ok_status)" by simp
  then show ?thesis
  proof (rule status_route_ok)
    fix ride ts ride2 d2
    assume "drivers d2 = drivers d"
      and "d' = (if st_status rq = ''completed''
           then complete_passenger ride2 (complete_driver ride2 d2) else d2)"
    then show ?thesis
      by (simp add: complete_driver_earned
          driver_earned_cong [of "complete_passenger ride2 (complete_driver ride2 d2)"
            "complete_driver ride2 d2"]
          driver_earned_cong [of d2 d])
  qed
qed

lemma status_route_other_target:
  assumes "status_route e rq d = (d', res)"
    and "\<not> (res = ok_status \<and> st_status rq = ''completed'')"
  shows "driver_rides i d' = driver_rides i d \<and> passenger_rides u d' = passenger_rides u d"
proof (cases "res = ok_status")
  case False
  then have "d' = d" using assms(1) status_route_not_ok by blast
  then show ?thesis by simp
next
  case True
  with assms have ok: "status_route e rq d = (d', ok_status)"
    and nc: "st_status rq \<noteq> ''completed''" by simp_all
  from ok show ?thesis
  proof (rule status_route_ok)
    fix ride ts ride2 d2
    assume "drivers d2 = drivers d" and "users d2 = users d"
      and "d' = (if st_status rq = ''completed''
           then complete_passenger ride2 (complete_driver ride2 d2) else d2)"
    then show ?thesis
      using nc by (simp add: driver_rides_cong [of d2 d] passenger_rides_cong [of d2 d])
  qed
qed

lemma status_route_completed:
  assumes "status_route e rq d = (d', ok_status)" and "st_status rq = ''completed''"
  shows "(\<exists>ride. Ride_findById (st_rideId rq) d = Some ride \<and> status ride = ''in_progress''
            \<and> driver_rides i d'
                = (if driver ride = Some i then map_option (\<lambda>n. n + 1) (driver_rides i d)
                   else driver_rides i d)
            \<and> passenger_rides u d'
                = (if passenger ride = u then map_option (\<lambda>n. n + 1) (passenger_rides u d)
                   else passenger_rides u d))
         \<and> status_route e rq d' = (d', Response 400 ''Invalid status transition'')"
  using assms(1)
proof (rule status_route_ok)
  fix ride ts ride2 d2
  assume r: "Ride_findById (st_rideId rq) d = Some ride"
    and auth: "passenger ride = st_user rq \<or> driver ride = Some (st_user rq)"
    and ts: "map_of validTransitions (status ride) = Some ts" and mem: "st_status rq \<in> set ts"
    and dv: "drivers d2 = drivers d" and us: "users d2 = users d"
    and r2: "Ride_findById (st_rideId rq) d2 = Some ride2"
    and same: "passenger ride2 = passenger ride" "driver ride2 = driver ride"
    and st2: "status ride2 = st_status rq"
    and d': "d' = (if st_status rq = ''completed''
           then complete_passenger ride2 (complete_driver ride2 d2) else d2)"
  have d'': "d' = complete_passenger ride2 (complete_driver ride2 d2)"
    using d' assms(2) by simp
  have inp: "status ride = ''in_progress''"
    using ts mem assms(2) completed_only_from_in_progress by simp
  have dr: "driver_rides i d'
      = (if driver ride = Some i then map_option (\<lambda>n. n + 1) (driver_rides i d)
         else driver_rides i d)"
    by (simp add: d'' same complete_driver_rides driver_rides_cong [OF dv]
        driver_rides_cong [of "complete_passenger ride2 (complete_driver ride2 d2)"
          "complete_driver ride2 d2"])
  have pr: "passenger_rides u d'
      = (if passenger ride = u then map_option (\<lambda>n. n + 1) (passenger_rides u d)
         else passenger_rides u d)"
    by (simp add: d'' same complete_passenger_rides passenger_rides_cong [OF us]
        passenger_rides_cong [of "complete_driver ride2 d2" d2])
  have "rides d' = rides d2" by (simp add: d'')
  then have f: "Ride_findById (st_rideId rq) d' = Some ride2"
    using r2 by (simp add: Ride_findById_cong [of d' d2])
  have v: "map_of validTransitions (status ride2) = Some []"
    by (simp add: st2 assms(2) validTransitions_def)
  have again: "status_route e rq d' = (d', Response 400 ''Invalid status transition'')"
    using f v auth same by (auto simp: status_route_def Let_def)
  show ?thesis
    using r inp dr pr again by blast
qed

text \<open>
  The steps of the handler, run one after the other with nothing in between, are the
  route as it reads.
\<close>

lemma status_responded_stays:
  "(status_step e rq ^^ n) (d, Status_responded res) = (d, Status_responded res)"
  by (induction n) simp_all

lemma steps_from_findPassenger:
  "(status_step e rq ^^ Suc (Suc n)) (d, Status_findPassenger r)
     = (complete_passenger r d,
        Status_responded (Response 200 ''Ride status updated successfully''))"
  by (simp add: funpow_Suc_right status_responded_stays complete_passenger_def
      del: funpow.simps split: option.splits)

lemma steps_from_findDriver:
  "(status_step e rq ^^ Suc (Suc (Suc (Suc n)))) (d, Status_findDriver r)
     = (complete_passenger r (complete_driver r d),
        Status_responded (Response 200 ''Ride status updated successfully''))"
proof -
  have "status_step e rq (d, Status_findDriver r) = (d, Status_findPassenger r)
          \<and> complete_driver r d = d
      \<or> (\<exists>v. status_step e rq (d, Status_findDriver r) = (d, Status_saveDriver r v)
             \<and> complete_driver r d = Driver_save v d)"
    by (auto simp: complete_driver_def split: option.splits)
  then show ?thesis
  proof
    assume a: "status_step e rq (d, Status_findDriver r) = (d, Status_findPassenger r)
          \<and> complete_driver r d = d"
    have "(status_step e rq ^^ Suc (Suc (Suc (Suc n)))) (d, Status_findDriver r)
        = (status_step e rq ^^ Suc (Suc (Suc n))) (d, Status_findPassenger r)"
      using a by (simp add: funpow_Suc_right del: funpow.simps)
    then show ?thesis
      using a by (simp add: steps_from_findPassenger del: funpow.simps)
  next
    assume "\<exists>v. status_step e rq (d, Status_findDriver r) = (d, Status_saveDriver r v)
             \<and> complete_driver r d = Driver_save v d"
    then obtain v where a: "status_step e rq (d, Status_findDriver r) = (d, Status_saveDriver r v)"
      and b: "complete_driver r d = Driver_save v d" by blast
    have "(status_step e rq ^^ Suc (Suc (Suc (Suc n)))) (d, Status_findDriver r)
        = (status_step e rq ^^ Suc (Suc n)) (Driver_save v d, Status_findPassenger r)"
      using a by (simp add: funpow_Suc_right del: funpow.simps)
    then show ?thesis
      using b by (simp add: steps_from_findPassenger del: funpow.simps)
  qed
qed

lemma steps_after_ride_saved:
  "(status_step e rq ^^ Suc (Suc (Suc (Suc n)))) (d, after_ride_saved rq r)
     = (if st_status rq = ''completed'' then complete_passenger r (complete_driver r d) else d,
        Status_responded (Response 200 ''Ride status updated successfully''))"
  by (simp add: after_ride_saved_def steps_from_findDriver status_responded_stays
      del: funpow.simps)

lemma steps_from_saveStatus:
  "(status_step e rq ^^ Suc (Suc (Suc (Suc (Suc (Suc n)))))) (d, Status_saveStatus r b)
     = (let d1 = Ride_save r d;
            (r2, d2) = (case st_location rq of
                          None \<Rightarrow> (r, d1)
                        | Some l \<Rightarrow>
                            if b then addDriverLocation (now e) (loc_coordinates l)
                                        (loc_heading l) (loc_speed l) r d1
                            else (r, d1))
        in (if st_status rq = ''completed''
            then complete_passenger r2 (complete_driver r2 d2) else d2,
            Status_responded (Response 200 ''Ride status updated successfully'')))"
proof (cases "st_location rq")
  case None
  have "(status_step e rq ^^ Suc (Suc (Suc (Suc (Suc (Suc n)))))) (d, Status_saveStatus r b)
      = (status_step e rq ^^ Suc (Suc (Suc (Suc (Suc n))))) (Ride_save r d, after_ride_saved rq r)"
    using None by (simp add: funpow_Suc_right del: funpow.simps)
  then show ?thesis
    using None by (simp add: steps_after_ride_saved del: funpow.simps)
next
  case (Some l)
  show ?thesis
  proof (cases b)
    case False
    have "(status_step e rq ^^ Suc (Suc (Suc (Suc (Suc (Suc n)))))) (d, Status_saveStatus r b)
      = (status_step e rq ^^ Suc (Suc (Suc (Suc (Suc n))))) (Ride_save r d, after_ride_saved rq r)"
      using Some False by (simp add: funpow_Suc_right del: funpow.simps)
    then show ?thesis
      using Some False by (simp add: steps_after_ride_saved del: funpow.simps)
  next
    case True
    let ?r2 = "fst (addDriverLocation (now e) (loc_coordinates l) (loc_heading l)
                     (loc_speed l) r d)"
    have same: "addDriverLocation (now e) (loc_coordinates l) (loc_heading l) (loc_speed l) r
                  (Ride_save r d) = (?r2, Ride_save ?r2 (Ride_save r d))"
      by (simp add: addDriverLocation_def Let_def)
    have "(status_step e rq ^^ Suc (Suc (Suc (Suc (Suc (Suc n)))))) (d, Status_saveStatus r b)
      = (status_step e rq ^^ Suc (Suc (Suc (Suc n))))
          (Ride_save ?r2 (Ride_save r d), after_ride_saved rq ?r2)"
      using Some True by (simp add: funpow_Suc_right del: funpow.simps)
    then show ?thesis
      using Some True by (simp add: steps_after_ride_saved same del: funpow.simps)
  qed
qed

lemma status_route_steps:
  "(status_step e rq ^^ 7) (d, Status_findRide)
     = (fst (status_route e rq d), Status_responded (snd (status_route e rq d)))"
proof -
  have 7: "(7::nat) = Suc (Suc (Suc (Suc (Suc (Suc (Suc 0))))))" by simp
  have "status_step e rq (d, Status_findRide)
          = (fst (status_route e rq d), Status_responded (snd (status_route e rq d)))
      \<or> (\<exists>ride ts. Ride_findById (st_rideId rq) d = Some ride
            \<and> (passenger ride = st_user rq \<or> driver ride = Some (st_user rq))
            \<and> map_of validTransitions (status ride) = Some ts \<and> st_status rq \<in> set ts)"
    by (auto simp: status_route_def Let_def split: option.splits)
  then show ?thesis
  proof
    assume a: "status_step e rq (d, Status_findRide)
          = (fst (status_route e rq d), Status_responded (snd (status_route e rq d)))"
    show ?thesis
      unfolding 7 by (subst funpow_Suc_right) (simp only: o_apply a status_responded_stays)
  next
    assume "\<exists>ride ts. Ride_findById (st_rideId rq) d = Some ride
            \<and> (passenger ride = st_user rq \<or> driver ride = Some (st_user rq))
            \<and> map_of validTransitions (status ride) = Some ts \<and> st_status rq \<in> set ts"
    then obtain ride ts where r: "Ride_findById (st_rideId rq) d = Some ride"
      and auth: "passenger ride = st_user rq \<or> driver ride = Some (st_user rq)"
      and ts: "map_of validTransitions (status ride) = Some ts" and mem: "st_status rq \<in> set ts"
      by blast
    define r1 where "r1 = fst (updateStatus (now e) (st_status rq) ride d)"
    have first: "status_step e rq (d, Status_findRide)
        = (d, Status_saveStatus r1 (driver ride = Some (st_user rq)))"
      using r auth ts mem by (auto simp: Let_def r1_def)
    have u: "updateStatus (now e) (st_status rq) ride d = (r1, Ride_save r1 d)"
      by (simp add: r1_def updateStatus_def Let_def)
    have route: "status_route e rq d
        = (let d1 = Ride_save r1 d;
               (r2, d2) = (case st_location rq of
                             None \<Rightarrow> (r1, d1)
                           | Some l \<Rightarrow>
                               if driver ride = Some (st_user rq)
                               then addDriverLocation (now e) (loc_coordinates l)
                                      (loc_heading l) (loc_speed l) r1 d1
                               else (r1, d1))
           in (if st_status rq = ''completed''
               then complete_passenger r2 (complete_driver r2 d2) else d2,
               Response 200 ''Ride status updated successfully''))"
      using r auth ts mem
      by (subst status_route_def) (auto simp: Let_def u split_beta split: option.splits)
    have "(status_step e rq ^^ 7) (d, Status_findRide)
        = (status_step e rq ^^ Suc (Suc (Suc (Suc (Suc (Suc 0))))))
            (d, Status_saveStatus r1 (driver ride = Some (st_user rq)))"
      unfolding 7 by (subst funpow_Suc_right) (simp only: o_apply first)
    then show ?thesis
      by (simp add: steps_from_saveStatus route Let_def split_beta del: funpow.simps)
  qed
qed

text \<open>
  However the handlers of several status requests are interleaved, no step changes the
  earnings of a driver.
\<close>

lemma step_keeps_earnings:
  assumes "holds_current_earnings d t" and "status_step e rq (d, t) = (d', t')"
  shows "driver_earned i d' = driver_earned i d" and "holds_current_earnings d' t'"
proof -
  have "driver_earned i d' = driver_earned i d \<and> holds_current_earnings d' t'"
  proof (cases t)
    case Status_findRide
    then show ?thesis
      using assms(2)
      by (auto simp: holds_current_earnings_def Let_def split: option.splits if_splits)
  next
    case (Status_saveStatus r b)
    then show ?thesis
      using assms(2)
      by (auto simp: holds_current_earnings_def after_ride_saved_def
          driver_earned_cong [of "Ride_save r d" d] split: option.splits if_splits)
  next
    case (Status_saveLocation r)
    then show ?thesis
      using assms(2)
      by (auto simp: holds_current_earnings_def after_ride_saved_def
          driver_earned_cong [of "Ride_save r d" d] split: option.splits if_splits)
  next
    case (Status_findDriver r)
    show ?thesis
    proof (cases "driver r")
      case None
      then show ?thesis
        using assms(2) Status_findDriver by (auto simp: holds_current_earnings_def)
    next
      case (Some j)
      show ?thesis
      proof (cases "Driver_findById j d")
        case None
        then show ?thesis
          using assms(2) Status_findDriver \<open>driver r = Some j\<close>
          by (auto simp: holds_current_earnings_def)
      next
        case (Some v)
        then have "driver_id v = j" by (rule Driver_findById_id)
        then show ?thesis
          using assms(2) Status_findDriver \<open>driver r = Some j\<close> Some
          by (auto simp: holds_current_earnings_def driver_earned_def)
      qed
    qed
  next
    case (Status_saveDriver r v)
    then have "driver_earned (driver_id v) d = Some (earnings v)"
      using assms(1) by (simp add: holds_current_earnings_def)
    then show ?thesis
      using assms(2) Status_saveDriver
      by (auto simp: holds_current_earnings_def driver_earned_def Driver_findById_save)
  next
    case (Status_findPassenger r)
    then show ?thesis
      using assms(2) by (auto simp: holds_current_earnings_def split: option.splits)
  next
    case (Status_savePassenger p)
    then show ?thesis
      using assms(2)
      by (auto simp: holds_current_earnings_def driver_earned_cong [of "User_save p d" d])
  next
    case (Status_responded res)
    then show ?thesis
      using assms(2) by (auto simp: holds_current_earnings_def)
  qed
  then show "driver_earned i d' = driver_earned i d" and "holds_current_earnings d' t'"
    by simp_all
qed

lemma holds_current_earnings_cong:
  "(\<And>i. driver_earned i d' = driver_earned i d)
    \<Longrightarrow> holds_current_earnings d' t = holds_current_earnings d t"
  by (simp add: holds_current_earnings_def split: status_task.splits)

lemma schedule_keeps_earnings:
  assumes "list_all (\<lambda>t. holds_current_earnings d (snd t)) ts"
  shows "driver_earned i (fst (run_status_schedule e sched (d, ts))) = driver_earned i d"
  using assms
proof (induction sched arbitrary: d ts)
  case Nil
  then show ?case by simp
next
  case (Cons k sched)
  show ?case
  proof (cases "k < length ts")
    case False
    then show ?thesis using Cons by simp
  next
    case True
    obtain d1 t1 where s: "status_step e (fst (ts ! k)) (d, snd (ts ! k)) = (d1, t1)"
      by (cases "status_step e (fst (ts ! k)) (d, snd (ts ! k))") blast
    have cur: "holds_current_earnings d (snd (ts ! k))"
      using Cons.prems True by (simp add: list_all_length)
    have same: "driver_earned j d1 = driver_earned j d" for j
      using step_keeps_earnings(1) [OF cur s] .
    have t1: "holds_current_earnings d1 t1"
      using step_keeps_earnings(2) [OF cur s] .
    have "holds_current_earnings d1 (snd (ts[k := (fst (ts ! k), t1)] ! n))"
      if "n < length ts" for n
    proof (cases "n = k")
      case True
      then show ?thesis using that t1 by simp
    next
      case False
      have "holds_current_earnings d (snd (ts ! n))"
        using Cons.prems that by (simp add: list_all_length)
      then have "holds_current_earnings d1 (snd (ts ! n))"
        using holds_current_earnings_cong [of d1 d "snd (ts ! n)", OF same] by simp
      then show ?thesis using False by simp
    qed
    then have "list_all (\<lambda>t. holds_current_earnings d1 (snd t))
        (ts[k := (fst (ts ! k), t1)])"
      by (simp add: list_all_length)
    then have "driver_earned i
        (fst (run_status_schedule e sched (d1, ts[k := (fst (ts ! k), t1)])))
          = driver_earned i d1"
      by (rule Cons.IH)
    then show ?thesis
      using True s same by simp
  qed
qed

lemma sample_completion:
  "status_route sample_env (sample_status ''completed'') sample_trip
     = (\<lparr>rides = [(sample_ride ''in_progress'' (Some 21))
                    \<lparr>status := ''completed'', completedAt := Some 1000,
                       droppedAt := Some 1000\<rparr>],
         drivers = [(sample_driver 21 31 sample_pickup)
                      \<lparr>isAvailable := True,
                         stats := \<lparr>totalRides = 1, totalDistance = 10, cancelledRides = 0\<rparr>\<rparr>],
         users = [\<lparr>user_id = 10, user_totalRides = 1\<rparr>]\<rparr>,
        ok_status)"
  by (simp add: status_route_def Ride_findById_def sample_db_def sample_ride_fields
      validTransitions_def updateStatus_def Ride_save_def complete_driver_def
      complete_passenger_def Driver_findById_def Driver_save_def User_findById_def
      User_save_def sample_driver_fields sample_env_fields ok_status_def Let_def
      sample_trip_def sample_status_def)

lemma sample_rejection:
  "status_route sample_env (sample_status ''driver_arrived'') sample_trip
     = (sample_trip, Response 400 ''Invalid status transition'')"
  by (simp add: status_route_def Ride_findById_def sample_db_def sample_ride_fields
      validTransitions_def sample_trip_def sample_status_def)

lemma sample_trip_counters:
  "driver_rides 21 sample_trip = Some 0" "passenger_rides 10 sample_trip = Some 0"
  "driver_earned 21 sample_trip = Some \<lparr>today = 0, thisWeek = 0, thisMonth = 0, total = 0\<rparr>"
  "Ride_findById 7 sample_trip = Some (sample_ride ''in_progress'' (Some 21))"
  by (simp_all add: driver_rides_def passenger_rides_def driver_earned_def
      Driver_findById_def User_findById_def Ride_findById_def sample_trip_def sample_db_def
      sample_driver_fields sample_ride_fields)

lemma sample_credit:
  "driver_earned 21 (snd (updateEarnings 236 (sample_driver 21 31 sample_pickup) sample_trip))
     = Some \<lparr>today = 236, thisWeek = 236, thisMonth = 236, total = 236\<rparr>"
  by (simp add: driver_earned_def updateEarnings_def Let_def Driver_findById_save
      sample_driver_fields)

text \<open>
  Two requests for \<^verbatim>\<open>completed\<close> by the passenger of the sample trip, the second read
  before the first has saved: both pass the test of the table, both are answered 200, and
  both counters end at 2.
\<close>

lemma overlapping_completions:
  "(let (d, ts) = run_status_schedule sample_env [0, 1, 0, 0, 0, 0, 0, 1, 1, 1, 1, 1]
                    (sample_trip,
                     [(sample_status ''completed'', Status_findRide),
                      (sample_status ''completed'', Status_findRide)])
    in map snd ts = [Status_responded ok_status, Status_responded ok_status]
       \<and> driver_rides 21 d = Some 2 \<and> passenger_rides 10 d = Some 2)"
  by (simp add: sample_trip_def sample_status_def sample_db_def sample_ride_fields
      sample_driver_fields sample_env_fields Ride_findById_def Driver_findById_def
      User_findById_def Ride_save_def Driver_save_def User_save_def validTransitions_def
      updateStatus_def after_ride_saved_def ok_status_def driver_rides_def passenger_rides_def
      Let_def)

text \<open>
  C4, as the claim states it, fails: the transition to \<^verbatim>\<open>completed\<close> does not credit
  the earnings of the driver. The sample ride, in progress with driver 21 and a driver
  earning of 236, is completed by its passenger; the answer is 200, the ride is
  \<^verbatim>\<open>completed\<close>, and the earnings of driver 21 are what they were, all zero, where
  \<^verbatim>\<open>updateEarnings\<close> would have made them 236.
\<close>

theorem C4_counterexample:
  "snd (status_route sample_env (sample_status ''completed'') sample_trip) = ok_status
   \<and> map status
        (rides (fst (status_route sample_env (sample_status ''completed'') sample_trip)))
     = [''completed'']
   \<and> map driver (rides sample_trip) = [Some 21]
   \<and> map (\<lambda>r. driverEarning (fare r)) (rides sample_trip) = [Some 236]
   \<and> driver_earned 21 sample_trip
     = Some \<lparr>today = 0, thisWeek = 0, thisMonth = 0, total = 0\<rparr>
   \<and> driver_earned 21 (fst (status_route sample_env (sample_status ''completed'') sample_trip))
     = Some \<lparr>today = 0, thisWeek = 0, thisMonth = 0, total = 0\<rparr>
   \<and> driver_earned 21
        (snd (updateEarnings 236 (sample_driver 21 31 sample_pickup) sample_trip))
     = Some \<lparr>today = 236, thisWeek = 236, thisMonth = 236, total = 236\<rparr>"
proof -
  have "map driver (rides sample_trip) = [Some 21]"
    "map (\<lambda>r. driverEarning (fare r)) (rides sample_trip) = [Some 236]"
    by (simp_all add: sample_trip_def sample_db_def sample_ride_fields sample_ride_earning)
  moreover have "driver_earned 21
      (fst (status_route sample_env (sample_status ''completed'') sample_trip))
     = Some \<lparr>today = 0, thisWeek = 0, thisMonth = 0, total = 0\<rparr>"
    unfolding sample_completion
    by (simp add: driver_earned_def Driver_findById_def sample_driver_fields)
  moreover have "map status
        (rides (fst (status_route sample_env (sample_status ''completed'') sample_trip)))
     = [''completed'']"
    unfolding sample_completion by simp
  ultimately show ?thesis
    using sample_credit by (simp add: sample_completion sample_trip_counters)
qed

text \<open>
  C4, amended. No status request changes the earnings of a driver, however the handlers
  of several requests are interleaved. For a handler that runs from its read of the ride
  to its answer with no other handler in between: when it answers 200 to a request for
  \<^verbatim>\<open>completed\<close>, the ride was \<^verbatim>\<open>in_progress\<close>, the ride counter of the driver of the
  ride and the ride counter of its passenger are each one more than before (where the
  document exists) and no other counter changes; when it answers anything else, or the
  target is not \<^verbatim>\<open>completed\<close>, no ride counter changes. What the counters become when
  requests for the same ride overlap is not part of this statement.
\<close>

theorem C4_completion_counters:
  assumes "status_route e rq d = (d', res)"
  shows "driver_earned i d' = driver_earned i d
    \<and> (res = ok_status \<and> st_status rq = ''completed'' \<longrightarrow>
         (\<exists>ride. Ride_findById (st_rideId rq) d = Some ride \<and> status ride = ''in_progress''
            \<and> driver_rides i d'
                = (if driver ride = Some i then map_option (\<lambda>n. n + 1) (driver_rides i d)
                   else driver_rides i d)
            \<and> passenger_rides u d'
                = (if passenger ride = u then map_option (\<lambda>n. n + 1) (passenger_rides u d)
                   else passenger_rides u d)))
    \<and> (\<not> (res = ok_status \<and> st_status rq = ''completed'') \<longrightarrow>
         driver_rides i d' = driver_rides i d \<and> passenger_rides u d' = passenger_rides u d)
    \<and> (status_step e rq ^^ 7) (d, Status_findRide) = (d', Status_responded res)
    \<and> driver_earned i
         (fst (run_status_schedule e sched (d, map (\<lambda>q. (q, Status_findRide)) rqs)))
        = driver_earned i d"
proof -
  have fresh: "list_all (\<lambda>t. holds_current_earnings d (snd t))
      (map (\<lambda>q. (q, Status_findRide)) rqs)"
    by (simp add: list_all_iff holds_current_earnings_def)
  have run: "(status_step e rq ^^ 7) (d, Status_findRide) = (d', Status_responded res)"
    using assms by (simp add: status_route_steps)
  show ?thesis
    using assms status_route_earned [OF assms, of i]
      status_route_completed [of e rq d d' i u]
      status_route_other_target [OF assms, of i u]
      schedule_keeps_earnings [OF fresh, of i e sched] run
    by blast
qed

theorem C4_completion_counters_witness:
  "snd (status_route sample_env (sample_status ''completed'') sample_trip) = ok_status
   \<and> st_status (sample_status ''completed'') = ''completed''
   \<and> driver_rides 21 sample_trip = Some 0
   \<and> driver_rides 21 (fst (status_route sample_env (sample_status ''completed'') sample_trip))
     = Some 1
   \<and> passenger_rides 10 sample_trip = Some 0
   \<and> passenger_rides 10
        (fst (status_route sample_env (sample_status ''completed'') sample_trip))
     = Some 1
   \<and> driver_earned 21 (fst (status_route sample_env (sample_status ''completed'') sample_trip))
     = driver_earned 21 sample_trip
   \<and> snd (status_route sample_env (sample_status ''driver_arrived'') sample_trip) \<noteq> ok_status
   \<and> driver_rides 21
        (fst (status_route sample_env (sample_status ''driver_arrived'') sample_trip))
     = Some 0"
proof -
  let ?X = "status_route sample_env (sample_status ''completed'') sample_trip"
  let ?Y = "status_route sample_env (sample_status ''driver_arrived'') sample_trip"
  have x: "?X = (fst ?X, snd ?X)" and y: "?Y = (fst ?Y, snd ?Y)"
    by simp_all
  have s: "snd ?X = ok_status" and n: "snd ?Y \<noteq> ok_status"
    by (simp_all add: sample_completion sample_rejection ok_status_def)
  have c: "st_status (sample_status ''completed'') = ''completed''"
    "st_rideId (sample_status ''completed'') = 7"
    by (simp_all add: sample_status_def)
  note t = C4_completion_counters [OF x, of 21 10]
  have e: "driver_earned 21 (fst ?X) = driver_earned 21 sample_trip"
    using t by (rule conjunct1)
  from t s c obtain ride where r: "Ride_findById 7 sample_trip = Some ride"
    and dr: "driver_rides 21 (fst ?X)
      = (if driver ride = Some 21 then map_option (\<lambda>n. n + 1) (driver_rides 21 sample_trip)
         else driver_rides 21 sample_trip)"
    and pr: "passenger_rides 10 (fst ?X)
      = (if passenger ride = 10 then map_option (\<lambda>n. n + 1) (passenger_rides 10 sample_trip)
         else passenger_rides 10 sample_trip)"
    by auto
  from r have ride: "ride = sample_ride ''in_progress'' (Some 21)"
    by (simp add: sample_trip_counters)
  have one: "driver_rides 21 (fst ?X) = Some 1" "passenger_rides 10 (fst ?X) = Some 1"
    using dr pr by (simp_all add: ride sample_ride_fields sample_trip_counters)
  have "driver_rides 21 (fst ?Y) = driver_rides 21 sample_trip"
    using C4_completion_counters [OF y, of 21 10] n by simp
  then show ?thesis
    using s n c e one by (simp add: sample_trip_counters)
qed

section \<open>Properties of the request route\<close>

lemma new_Ride_invalid:
  "\<not> Ride_validate (calculateFare (new_Ride i u p q vt pm km dur code) cfg)"
  "\<not> Ride_validate
       ((calculateFare (new_Ride i u p q vt pm km dur code) cfg)\<lparr>castErrors := xs\<rparr>)"
  by (simp_all add: Ride_validate_def calculateFare_other new_Ride_def)

text \<open>
  The route as a whole: the document it builds has no \<^verbatim>\<open>rideId\<close>, the first
  \<^verbatim>\<open>save()\<close> rejects it, and every request of at least the minimum distance is
  answered 500 with nothing stored.
\<close>

lemma request_route_rejected:
  "request_route e rq d =
     (if calculateDistance e (rq_pickup rq) (rq_destination rq) < 0.5
      then (d, Response 400 ''Minimum distance is 0.5 km'')
      else (d, Response 500 ''Failed to request ride''))"
  by (simp add: request_route_def save_validated_def new_Ride_invalid Let_def
      split: option.splits)


lemma Ride_validate_status [simp]:
  "Ride_validate (r\<lparr>status := s\<rparr>) = Ride_validate r"
  "Ride_validate (r\<lparr>status := s, cancellationReason := c\<rparr>) = Ride_validate r"
  by (simp_all add: Ride_validate_def split: option.splits)





lemma sample_request_distance:
  "calculateDistance sample_env (rq_pickup sample_request) (rq_destination sample_request) = 20"
  by (simp add: calculateDistance_def sample_request_def sample_env_fields grid_metres_def
      sample_pickup_def sample_destination_def)

text \<open>
  The scenario of the specification, sent to the route: a car from (77.1, 28.6) to
  (77.2, 28.7) with no driver within 5 km. The answer is 500 and no ride is stored.
\<close>

lemma sample_request_rejected:
  "request_route sample_env sample_request sample_no_rides
     = (sample_no_rides, Response 500 ''Failed to request ride'')"
  by (simp add: request_route_rejected sample_request_distance)




end
